theory Spec2Isabelle
  imports Complex_Main "HOL-Library.AList" "HOL-Library.Char_ord" "HOL-Library.List_Lexorder"
begin

section \<open>Python values and exceptions\<close>

text \<open>
  The programs of the repository are dynamically typed. The model works on the first-order
  fragment of Python values that the examples and the generated trees are made of:
  \<open>None\<close>, booleans, (unbounded) integers and lists of these.
\<close>

datatype pyval = PNone | PBool bool | PInt int | PList "pyval list"

text \<open>
  Exceptions are values. \<open>OutsideFragment\<close> is not a Python exception: it marks a
  primitive call whose Python result is not a value of \<open>pyval\<close> (a float produced by
  true division, or a function object produced by \<open>const\<close>, \<open>compose\<close> and \<open>fix\<close>).
\<close>

datatype py_error =
    TypeError
  | KeyError string
  | ValueError
  | IndexError
  | OutsideFragment

text \<open>Numbers: \<open>bool\<close> is a subclass of \<open>int\<close>, \<open>True\<close> is 1 and \<open>False\<close> is 0.\<close>

fun py_num :: "pyval \<Rightarrow> int option" where
  "py_num (PBool b) = Some (if b then 1 else 0)"
| "py_num (PInt i) = Some i"
| "py_num PNone = None"
| "py_num (PList xs) = None"

text \<open>Python's \<open>==\<close> on the fragment: numeric across \<open>int\<close> and \<open>bool\<close>, elementwise on lists.\<close>

fun py_eq :: "pyval \<Rightarrow> pyval \<Rightarrow> bool"
  and py_eq_list :: "pyval list \<Rightarrow> pyval list \<Rightarrow> bool" where
  "py_eq PNone PNone = True"
| "py_eq (PList xs) (PList ys) = py_eq_list xs ys"
| "py_eq (PBool a) (PBool b) = (a = b)"
| "py_eq (PBool a) (PInt j) = ((if a then 1 else 0) = j)"
| "py_eq (PInt i) (PBool b) = (i = (if b then 1 else 0))"
| "py_eq (PInt i) (PInt j) = (i = j)"
| "py_eq x y = False"
| "py_eq_list [] [] = True"
| "py_eq_list (x # xs) (y # ys) = (py_eq x y \<and> py_eq_list xs ys)"
| "py_eq_list xs ys = False"

text \<open>Truth value testing.\<close>

fun truthy :: "pyval \<Rightarrow> bool" where
  "truthy PNone = False"
| "truthy (PBool b) = b"
| "truthy (PInt i) = (i \<noteq> 0)"
| "truthy (PList xs) = (xs \<noteq> [])"

text \<open>
  Python's \<open><\<close>: numeric on numbers; on two lists the first pair of unequal elements
  decides (and may itself raise), otherwise the shorter list is smaller; anything else
  raises \<open>TypeError\<close>.
\<close>

fun py_lt :: "pyval \<Rightarrow> pyval \<Rightarrow> py_error + bool"
  and py_lt_list :: "pyval list \<Rightarrow> pyval list \<Rightarrow> py_error + bool" where
  "py_lt (PList xs) (PList ys) = py_lt_list xs ys"
| "py_lt (PBool a) (PBool b) = Inr ((if a then (1::int) else 0) < (if b then 1 else 0))"
| "py_lt (PBool a) (PInt j) = Inr ((if a then 1 else 0) < j)"
| "py_lt (PInt i) (PBool b) = Inr (i < (if b then 1 else 0))"
| "py_lt (PInt i) (PInt j) = Inr (i < j)"
| "py_lt x y = Inl TypeError"
| "py_lt_list [] [] = Inr False"
| "py_lt_list [] (y # ys) = Inr True"
| "py_lt_list (x # xs) [] = Inr False"
| "py_lt_list (x # xs) (y # ys) = (if py_eq x y then py_lt_list xs ys else py_lt x y)"

text \<open>Decimal rendering of integers, as f-strings produce it.\<close>

fun str_nat :: "nat \<Rightarrow> string" where
  "str_nat n = (if n < 10 then [''0123456789'' ! n]
                else str_nat (n div 10) @ [''0123456789'' ! (n mod 10)])"

declare str_nat.simps [simp del]

definition str_int :: "int \<Rightarrow> string" where
  "str_int i = (if i < 0 then ''-'' @ str_nat (nat (- i)) else str_nat (nat i))"

section \<open>Program trees\<close>

text \<open>
  The tagged tuples \<open>('primitive', name)\<close>, \<open>('var', i)\<close>, \<open>('const', v)\<close> and
  \<open>('apply', name, children)\<close>.
\<close>

datatype ast =
    Primitive string
  | Var nat
  | Const pyval
  | Apply string "ast list"

text \<open>
  Equality of two trees as Python compares the tuples: tags and names as strings, variable
  indices as integers, constants with \<open>==\<close> (so \<open>('const', 1) == ('const', True)\<close>),
  children pairwise.
\<close>

fun ast_eq :: "ast \<Rightarrow> ast \<Rightarrow> bool"
  and ast_eq_list :: "ast list \<Rightarrow> ast list \<Rightarrow> bool" where
  "ast_eq (Primitive a) (Primitive b) = (a = b)"
| "ast_eq (Var i) (Var j) = (i = j)"
| "ast_eq (Const v) (Const w) = py_eq v w"
| "ast_eq (Apply a xs) (Apply b ys) = (a = b \<and> ast_eq_list xs ys)"
| "ast_eq s t = False"
| "ast_eq_list [] [] = True"
| "ast_eq_list (x # xs) (y # ys) = (ast_eq x y \<and> ast_eq_list xs ys)"
| "ast_eq_list xs ys = False"

section \<open>The enumerative synthesizer (synthesis\_engine.py)\<close>

record io_example =
  inputs :: "pyval list"
  output_val :: pyval

type_synonym callable = "pyval list \<Rightarrow> py_error + pyval"

text \<open>
  \<open>primitive_ops\<close> is a dictionary from names to callables. Dictionaries keep insertion
  order, which is the order of enumeration, so it is an association list.
\<close>

type_synonym registry = "(string \<times> callable) list"

record synthesized_program =
  code :: string
  func :: callable
  cost :: nat
  examples_satisfied :: nat
  generalizes :: bool

record synthesizer =
  max_program_size :: int
  primitive_ops :: registry
  learned_programs :: "synthesized_program list"

subsection \<open>The base primitives\<close>

text \<open>
  Each lambda of \<open>_initialize_primitives\<close>, on argument lists: a call with the wrong
  number of arguments raises \<open>TypeError\<close>.
\<close>

fun prim_add :: callable where
  "prim_add [PList xs, PList ys] = Inr (PList (xs @ ys))"
| "prim_add [x, y] = (case (py_num x, py_num y) of
       (Some a, Some b) \<Rightarrow> Inr (PInt (a + b)) | _ \<Rightarrow> Inl TypeError)"
| "prim_add args = Inl TypeError"

fun prim_sub :: callable where
  "prim_sub [x, y] = (case (py_num x, py_num y) of
       (Some a, Some b) \<Rightarrow> Inr (PInt (a - b)) | _ \<Rightarrow> Inl TypeError)"
| "prim_sub args = Inl TypeError"

fun py_repeat :: "pyval list \<Rightarrow> int \<Rightarrow> pyval list" where
  "py_repeat xs n = concat (replicate (nat n) xs)"

fun prim_mul :: callable where
  "prim_mul [x, y] = (case (py_num x, py_num y) of
       (Some a, Some b) \<Rightarrow> Inr (PInt (a * b))
     | (Some a, None) \<Rightarrow> (case y of PList ys \<Rightarrow> Inr (PList (py_repeat ys a)) | _ \<Rightarrow> Inl TypeError)
     | (None, Some b) \<Rightarrow> (case x of PList xs \<Rightarrow> Inr (PList (py_repeat xs b)) | _ \<Rightarrow> Inl TypeError)
     | (None, None) \<Rightarrow> Inl TypeError)"
| "prim_mul args = Inl TypeError"

text \<open>\<open>x / y if y != 0 else 0\<close>: the quotient of two numbers is a float.\<close>

fun prim_div :: callable where
  "prim_div [x, y] = (if py_eq y (PInt 0) then Inr (PInt 0)
       else (case (py_num x, py_num y) of
           (Some a, Some b) \<Rightarrow> Inl OutsideFragment | _ \<Rightarrow> Inl TypeError))"
| "prim_div args = Inl TypeError"

fun prim_and :: callable where
  "prim_and [x, y] = Inr (if truthy x then y else x)"
| "prim_and args = Inl TypeError"

fun prim_or :: callable where
  "prim_or [x, y] = Inr (if truthy x then x else y)"
| "prim_or args = Inl TypeError"

fun prim_not :: callable where
  "prim_not [x] = Inr (PBool (\<not> truthy x))"
| "prim_not args = Inl TypeError"

fun prim_eq :: callable where
  "prim_eq [x, y] = Inr (PBool (py_eq x y))"
| "prim_eq args = Inl TypeError"

fun prim_gt :: callable where
  "prim_gt [x, y] = map_sum id PBool (py_lt y x)"
| "prim_gt args = Inl TypeError"

fun prim_lt :: callable where
  "prim_lt [x, y] = map_sum id PBool (py_lt x y)"
| "prim_lt args = Inl TypeError"

text \<open>\<open>lambda cond, then_val, else_val: then_val if cond else else_val\<close>\<close>

fun prim_if :: callable where
  "prim_if [cond, then_val, else_val] = Inr (if truthy cond then then_val else else_val)"
| "prim_if args = Inl TypeError"

fun prim_identity :: callable where
  "prim_identity [x] = Inr x"
| "prim_identity args = Inl TypeError"

text \<open>\<open>const\<close>, \<open>compose\<close> and \<open>fix\<close> return a function object.\<close>

fun prim_const :: callable where
  "prim_const [x] = Inl OutsideFragment"
| "prim_const args = Inl TypeError"

fun prim_compose :: callable where
  "prim_compose [f, g] = Inl OutsideFragment"
| "prim_compose args = Inl TypeError"

fun prim_fix :: callable where
  "prim_fix [f] = Inl OutsideFragment"
| "prim_fix args = Inl TypeError"

text \<open>
  \<open>list(map(f, xs)) if isinstance(xs, list) else xs\<close>: no value of the fragment is
  callable, so mapping over a non-empty list raises.
\<close>

fun prim_map :: callable where
  "prim_map [f, PList []] = Inr (PList [])"
| "prim_map [f, PList (x # xs)] = Inl TypeError"
| "prim_map [f, xs] = Inr xs"
| "prim_map args = Inl TypeError"

text \<open>\<open>filter(None, xs)\<close> keeps the true elements.\<close>

fun prim_filter :: callable where
  "prim_filter [PNone, PList xs] = Inr (PList (filter truthy xs))"
| "prim_filter [f, PList []] = Inr (PList [])"
| "prim_filter [f, PList (x # xs)] = Inl TypeError"
| "prim_filter [f, xs] = Inr xs"
| "prim_filter args = Inl TypeError"

text \<open>
  \<open>_safe_reduce\<close> catches every exception of the loop and returns \<open>init\<close>; with no
  callable in the fragment the loop either does not run or raises at once.
\<close>

fun prim_reduce :: callable where
  "prim_reduce [f, xs, init] = Inr init"
| "prim_reduce args = Inl TypeError"

fun prim_head :: callable where
  "prim_head [PList (x # xs)] = Inr x"
| "prim_head [xs] = Inr PNone"
| "prim_head args = Inl TypeError"

fun prim_tail :: callable where
  "prim_tail [PList (x # xs)] = Inr (PList xs)"
| "prim_tail [xs] = Inr (PList [])"
| "prim_tail args = Inl TypeError"

fun prim_cons :: callable where
  "prim_cons [x, PList xs] = Inr (PList (x # xs))"
| "prim_cons [x, xs] = Inr (PList [x])"
| "prim_cons args = Inl TypeError"

definition initialize_primitives :: registry where
  "initialize_primitives =
    [(''add'', prim_add), (''sub'', prim_sub), (''mul'', prim_mul), (''div'', prim_div),
     (''and'', prim_and), (''or'', prim_or), (''not'', prim_not), (''eq'', prim_eq),
     (''gt'', prim_gt), (''lt'', prim_lt),
     (''if'', prim_if), (''identity'', prim_identity), (''const'', prim_const),
     (''compose'', prim_compose),
     (''map'', prim_map), (''filter'', prim_filter), (''reduce'', prim_reduce),
     (''head'', prim_head), (''tail'', prim_tail), (''cons'', prim_cons),
     (''fix'', prim_fix)]"

subsection \<open>Enumeration of candidate trees\<close>

fun synth_get_arity :: "string \<Rightarrow> nat" where
  "synth_get_arity op_name =
     (if op_name \<in> set [''add'', ''sub'', ''mul'', ''div'', ''and'', ''or'', ''eq'', ''gt'', ''lt'',
                         ''cons'', ''compose''] then 2
      else if op_name \<in> set [''not'', ''identity'', ''head'', ''tail'', ''const''] then 1
      else if op_name \<in> set [''if'', ''reduce''] then 3
      else if op_name \<in> set [''map'', ''filter''] then 2
      else 1)"

text \<open>
  \<open>_partitions(n, k)\<close>: \<open>[n]\<close> for \<open>k == 1\<close>; for \<open>k > 1\<close> every first part
  \<open>i\<close> in \<open>range(1, n)\<close> followed by a partition of \<open>n - i\<close> into \<open>k - 1\<close> parts;
  nothing for \<open>k < 1\<close>.
\<close>

fun partitions :: "nat \<Rightarrow> nat \<Rightarrow> nat list list" where
  "partitions n 0 = []"
| "partitions n (Suc 0) = [[n]]"
| "partitions n (Suc (Suc k)) =
     concat (map (\<lambda>i. map (\<lambda>p. i # p) (partitions (n - i) (Suc k))) [1..<n])"

lemma partitions_parts_le:
  "p \<in> set (partitions n k) \<Longrightarrow> s \<in> set p \<Longrightarrow> s \<le> n"
proof (induction n k arbitrary: p rule: partitions.induct)
  case (1 n)
  then show ?case by simp
next
  case (2 n)
  then show ?case by simp
next
  case (3 n k)
  from "3.prems"(1) obtain i rest where
    i: "i \<in> set [1..<n]" and rest: "rest \<in> set (partitions (n - i) (Suc k))"
    and part: "p = i # rest"
    by auto
  show ?case
  proof (cases "s = i")
    case True
    with i show ?thesis by simp
  next
    case False
    with part "3.prems"(2) have "s \<in> set rest" by simp
    with "3.IH" [OF i rest] have "s \<le> n - i" .
    then show ?thesis by simp
  qed
qed

text \<open>
  \<open>_enumerate_programs(size)\<close>, the generator as the list of what it yields, in order.
  \<open>synthesize\<close> calls it with \<open>size \<ge> 1\<close> only, and every recursive call is on a part
  of a partition, which is positive (lemma \<open>partitions_parts_pos\<close> below) and smaller
  than \<open>size\<close>. For \<open>size = 0\<close>, which is never reached, the Python recursion does not
  end; the model yields nothing there.
\<close>

function enumerate_programs :: "registry \<Rightarrow> nat \<Rightarrow> ast list" where
  "enumerate_programs ops sz =
     (if sz = 0 then []
      else if sz = 1 then map (\<lambda>entry. Primitive (fst entry)) ops @ map Var [0..<3]
      else concat (map (\<lambda>entry.
             concat (map (\<lambda>subprogram_sizes.
                 map (Apply (fst entry))
                     (product_lists (map (enumerate_programs ops) subprogram_sizes)))
               (partitions (sz - 1) (synth_get_arity (fst entry)))))
           ops))"
  by pat_completeness auto
termination
proof (relation "measure (\<lambda>(ops, sz). sz)")
  show "wf (measure (\<lambda>(ops, sz). sz))" by simp
next
  fix ops :: registry and sz :: nat
    and entry :: "string \<times> callable" and subprogram_sizes :: "nat list" and s :: nat
  assume "sz \<noteq> 0" "sz \<noteq> 1"
    and "subprogram_sizes \<in> set (partitions (sz - 1) (synth_get_arity (fst entry)))"
    and "s \<in> set subprogram_sizes"
  then have "s \<le> sz - 1" and "1 < sz"
    using partitions_parts_le by (blast, simp)
  then show "((ops, s), (ops, sz)) \<in> measure (\<lambda>(ops, sz). sz)" by simp
qed

declare enumerate_programs.simps [simp del]

subsection \<open>Compilation and rendering\<close>

text \<open>The first exception of a list of results, in order; otherwise all the values.\<close>

fun collect :: "('e + 'a) list \<Rightarrow> 'e + 'a list" where
  "collect [] = Inr []"
| "collect (r # rs) =
     (case r of
        Inl e \<Rightarrow> Inl e
      | Inr v \<Rightarrow> (case collect rs of Inl e \<Rightarrow> Inl e | Inr vs \<Rightarrow> Inr (v # vs)))"

text \<open>
  \<open>_compile_ast\<close>. A name that is not in the registry raises \<open>KeyError\<close> when the tree
  is compiled. The function compiled from an \<open>apply\<close> node computes the results of all
  compiled children on the arguments (\<open>[sub(*args) for sub in compiled_subs]\<close>) and
  then calls the operator on them.
\<close>

fun compile_ast :: "registry \<Rightarrow> ast \<Rightarrow> py_error + callable" where
  "compile_ast ops (Primitive op_name) =
     (case map_of ops op_name of None \<Rightarrow> Inl (KeyError op_name) | Some op_func \<Rightarrow> Inr op_func)"
| "compile_ast ops (Const const_val) = Inr (\<lambda>args. Inr const_val)"
| "compile_ast ops (Var var_idx) =
     Inr (\<lambda>args. Inr (if var_idx < length args then args ! var_idx else PNone))"
| "compile_ast ops (Apply op_name subprograms) =
     (case map_of ops op_name of
        None \<Rightarrow> Inl (KeyError op_name)
      | Some op_func \<Rightarrow>
          (case collect (map (compile_ast ops) subprograms) of
             Inl e \<Rightarrow> Inl e
           | Inr compiled_subs \<Rightarrow>
               Inr (\<lambda>args.
                 case collect (map (\<lambda>sub. sub args) compiled_subs) of
                   Inl e \<Rightarrow> Inl e
                 | Inr sub_results \<Rightarrow> op_func sub_results)))"

fun join :: "string \<Rightarrow> string list \<Rightarrow> string" where
  "join sep [] = []"
| "join sep [s] = s"
| "join sep (s # t # ss) = s @ sep @ join sep (t # ss)"

fun ast_to_code :: "ast \<Rightarrow> string" where
  "ast_to_code (Primitive op_name) = op_name"
| "ast_to_code (Var i) = ''arg'' @ str_nat i"
| "ast_to_code (Apply op_name subprograms) =
     op_name @ ''('' @ join '', '' (map ast_to_code subprograms) @ '')''"
| "ast_to_code (Const v) = ''unknown''"

subsection \<open>The bounded fixed point\<close>

text \<open>
  \<open>_fixed_point(f, max_iter=100)\<close> returns \<open>fix_fn\<close>. The loop of \<open>fix_fn\<close>, with
  \<open>n\<close> iterations left and the current \<open>result\<close>: it returns the number of calls of
  \<open>f\<close> it made together with what \<open>fix_fn\<close> returns or raises. The function \<open>f\<close> and
  the comparison \<open>==\<close> are whatever the caller's values provide; an exception of \<open>f\<close>
  leaves the loop.
\<close>

fun fix_loop :: "('a \<Rightarrow> 'e + 'a) \<Rightarrow> ('a \<Rightarrow> 'a \<Rightarrow> bool) \<Rightarrow> nat \<Rightarrow> 'a \<Rightarrow> nat \<times> ('e + 'a)" where
  "fix_loop f eq 0 result = (0, Inr result)"
| "fix_loop f eq (Suc n) result =
     (case f result of
        Inl e \<Rightarrow> (1, Inl e)
      | Inr new_result \<Rightarrow>
          if eq new_result result then (1, Inr result)
          else (let (calls, r) = fix_loop f eq n new_result in (Suc calls, r)))"

definition fixed_point :: "('a \<Rightarrow> 'e + 'a) \<Rightarrow> ('a \<Rightarrow> 'a \<Rightarrow> bool) \<Rightarrow> 'a \<Rightarrow> nat \<times> ('e + 'a)" where
  "fixed_point f eq x = fix_loop f eq 100 x"

subsection \<open>synthesize\<close>

text \<open>The split of the examples into training and held-out examples.\<close>

definition split_examples :: "io_example list \<Rightarrow> io_example list \<times> io_example list" where
  "split_examples examples =
     (if length examples < 2 then (examples, [])
      else (let split = length examples * 2 div 3
            in (take split examples, drop split examples)))"

text \<open>The loop over the training examples: an exception leaves the loop.\<close>

fun count_satisfied :: "callable \<Rightarrow> io_example list \<Rightarrow> nat \<Rightarrow> nat" where
  "count_satisfied f [] satisfied = satisfied"
| "count_satisfied f (example # rest) satisfied =
     (case f (inputs example) of
        Inl e \<Rightarrow> satisfied
      | Inr result \<Rightarrow>
          count_satisfied f rest
            (if py_eq result (output_val example) then satisfied + 1 else satisfied))"

text \<open>The loop over the held-out examples.\<close>

fun test_generalizes :: "callable \<Rightarrow> io_example list \<Rightarrow> bool" where
  "test_generalizes f [] = True"
| "test_generalizes f (example # rest) =
     (case f (inputs example) of
        Inl e \<Rightarrow> False
      | Inr result \<Rightarrow>
          if \<not> py_eq result (output_val example) then False else test_generalizes f rest)"

text \<open>
  The body of the loop over the candidates, after the budget test: \<open>Some\<close> is the
  program that \<open>synthesize\<close> returns at once, \<open>None\<close> is going on with the next candidate
  (a candidate that does not compile, or that misses a training example).
\<close>

definition check_candidate ::
  "registry \<Rightarrow> io_example list \<Rightarrow> io_example list \<Rightarrow> nat \<Rightarrow> ast \<Rightarrow> synthesized_program option" where
  "check_candidate ops train_examples test_examples sz program_ast =
     (case compile_ast ops program_ast of
        Inl e \<Rightarrow> None
      | Inr f \<Rightarrow>
          (let satisfied = count_satisfied f train_examples 0
           in if satisfied = length train_examples
              then Some \<lparr>code = ast_to_code program_ast, func = f, cost = sz,
                         examples_satisfied = satisfied,
                         generalizes = test_generalizes f test_examples\<rparr>
              else None))"

text \<open>
  The loop over the candidates of one size, with the counter \<open>programs_checked\<close>:
  \<open>break\<close> once the counter has reached \<open>timeout_programs\<close>.
\<close>

fun scan_candidates ::
  "registry \<Rightarrow> io_example list \<Rightarrow> io_example list \<Rightarrow> nat \<Rightarrow> int \<Rightarrow> int \<Rightarrow> ast list
     \<Rightarrow> synthesized_program option" where
  "scan_candidates ops train test sz timeout_programs programs_checked [] = None"
| "scan_candidates ops train test sz timeout_programs programs_checked (program_ast # rest) =
     (if programs_checked \<ge> timeout_programs then None
      else (case check_candidate ops train test sz program_ast of
              Some synthesized \<Rightarrow> Some synthesized
            | None \<Rightarrow>
                scan_candidates ops train test sz timeout_programs (programs_checked + 1) rest))"

text \<open>
  The loop over the sizes: \<open>programs_checked = 0\<close> is the first statement of its body.
\<close>

fun search_sizes ::
  "registry \<Rightarrow> io_example list \<Rightarrow> io_example list \<Rightarrow> int \<Rightarrow> nat list
     \<Rightarrow> synthesized_program option" where
  "search_sizes ops train test timeout_programs [] = None"
| "search_sizes ops train test timeout_programs (sz # sizes) =
     (case scan_candidates ops train test sz timeout_programs 0 (enumerate_programs ops sz) of
        Some synthesized \<Rightarrow> Some synthesized
      | None \<Rightarrow> search_sizes ops train test timeout_programs sizes)"

text \<open>\<open>range(1, self.max_program_size + 1)\<close>\<close>

definition size_range :: "int \<Rightarrow> nat list" where
  "size_range m = [1..<nat (m + 1)]"

text \<open>
  \<open>synthesize(examples, timeout_programs)\<close>: the returned program, if any, and the
  synthesizer with the program appended to \<open>learned_programs\<close>.
\<close>

definition synthesize ::
  "synthesizer \<Rightarrow> io_example list \<Rightarrow> int \<Rightarrow> synthesized_program option \<times> synthesizer" where
  "synthesize s examples timeout_programs =
     (let (train_examples, test_examples) = split_examples examples
      in case search_sizes (primitive_ops s) train_examples test_examples timeout_programs
                (size_range (max_program_size s)) of
           Some synthesized \<Rightarrow>
             (Some synthesized, s\<lparr>learned_programs := learned_programs s @ [synthesized]\<rparr>)
         | None \<Rightarrow> (None, s))"

text \<open>\<open>ProgramSynthesizer(max_program_size)\<close>\<close>

definition new_synthesizer :: "int \<Rightarrow> synthesizer" where
  "new_synthesizer m =
     \<lparr>max_program_size = m, primitive_ops = initialize_primitives, learned_programs = []\<rparr>"

section \<open>The genetic engine (genetic\_operators.py)\<close>

subsection \<open>The random module\<close>

text \<open>
  The state of the random number generator is the infinite sequence of raw draws it will
  deliver. Every function of the module takes one draw and leaves the rest; every value a
  call can return is the result for some draw.
\<close>

type_synonym rng = "nat \<Rightarrow> nat"

definition rng_tail :: "rng \<Rightarrow> rng" where
  "rng_tail g = (\<lambda>i. g (Suc i))"

text \<open>\<open>random.random()\<close>: a multiple of \<open>2\<^sup>-\<^sup>5\<^sup>3\<close> in \<open>[0, 1)\<close>.\<close>

definition random_random :: "rng \<Rightarrow> real \<times> rng" where
  "random_random g = (real (g 0 mod 2 ^ 53) / 2 ^ 53, rng_tail g)"

text \<open>\<open>random.randint(0, n - 1)\<close> and \<open>random.choice(range(n))\<close>, for \<open>n > 0\<close>.\<close>

definition random_below :: "nat \<Rightarrow> rng \<Rightarrow> nat \<times> rng" where
  "random_below n g = (g 0 mod n, rng_tail g)"

text \<open>\<open>random.choice(xs)\<close>: \<open>IndexError\<close> on an empty sequence.\<close>

definition random_choice :: "'a list \<Rightarrow> rng \<Rightarrow> py_error + 'a \<times> rng" where
  "random_choice xs g =
     (if xs = [] then Inl IndexError else Inr (xs ! (g 0 mod length xs), rng_tail g))"

text \<open>Choosing \<open>k\<close> elements at distinct positions, one after the other.\<close>

fun sample_distinct :: "'a list \<Rightarrow> nat \<Rightarrow> rng \<Rightarrow> 'a list \<times> rng" where
  "sample_distinct xs 0 g = ([], g)"
| "sample_distinct xs (Suc k) g =
     (if xs = [] then ([], g)
      else (let i = g 0 mod length xs;
                (rest, g') = sample_distinct (take i xs @ drop (Suc i) xs) k (rng_tail g)
            in (xs ! i # rest, g')))"

text \<open>
  \<open>random.sample(xs, k)\<close>: \<open>ValueError\<close> if \<open>k\<close> is negative or larger than the
  population.
\<close>

definition random_sample :: "'a list \<Rightarrow> int \<Rightarrow> rng \<Rightarrow> py_error + 'a list \<times> rng" where
  "random_sample xs k g =
     (if k < 0 \<or> int (length xs) < k then Inl ValueError
      else Inr (sample_distinct xs (nat k) g))"

subsection \<open>Individuals and the engine\<close>

text \<open>
  \<open>GeneticOperator\<close>. The field \<open>parent_ids\<close> holds \<open>id(\<dots>)\<close> of the parent objects; object
  identities have no counterpart among values, and the field, which nothing reads, is left
  out. \<open>copy.deepcopy\<close> of an individual is the same record.
\<close>

record genetic_operator =
  ast :: ast
  fitness :: real
  age :: int
  mutations :: int

text \<open>An entry of \<open>fitness_history\<close>.\<close>

record fitness_stats =
  stats_generation :: int
  avg_fitness :: real
  max_fitness :: real
  stats_best_ever :: real

record genetic_evolution =
  population_size :: int
  mutation_rate :: real
  crossover_rate :: real
  tournament_size :: int
  population :: "genetic_operator list"
  generation :: int
  best_ever :: "genetic_operator option"
  fitness_history :: "fitness_stats list"

text \<open>\<open>self.primitives\<close>, the same list in every engine.\<close>

definition primitives :: "string list" where
  "primitives =
     [''add'', ''sub'', ''mul'', ''div'',
      ''and'', ''or'', ''not'',
      ''eq'', ''gt'', ''lt'',
      ''if'', ''identity'',
      ''map'', ''filter'', ''reduce'',
      ''head'', ''tail'', ''cons'']"

text \<open>\<open>GeneticEvolution(population_size, mutation_rate, crossover_rate, tournament_size)\<close>\<close>

definition new_genetic_evolution :: "int \<Rightarrow> real \<Rightarrow> real \<Rightarrow> int \<Rightarrow> genetic_evolution" where
  "new_genetic_evolution n m c t =
     \<lparr>population_size = n, mutation_rate = m, crossover_rate = c, tournament_size = t,
      population = [], generation = 0, best_ever = None, fitness_history = []\<rparr>"

text \<open>\<open>GeneticOperator(ast=ast)\<close>, with the defaults of the other fields.\<close>

definition new_operator :: "ast \<Rightarrow> genetic_operator" where
  "new_operator a = \<lparr>ast = a, fitness = 0, age = 0, mutations = 0\<rparr>"

text \<open>\<open>GeneticEvolution._get_arity\<close>\<close>

fun genetic_get_arity :: "string \<Rightarrow> nat" where
  "genetic_get_arity primitive =
     (if primitive \<in> set [''add'', ''sub'', ''mul'', ''div'', ''and'', ''or'', ''eq'', ''gt'',
                           ''lt'', ''cons''] then 2
      else if primitive \<in> set [''not'', ''identity'', ''head'', ''tail''] then 1
      else if primitive \<in> set [''if'', ''reduce''] then 3
      else if primitive \<in> set [''map'', ''filter''] then 2
      else 1)"

declare genetic_get_arity.simps [simp del]

subsection \<open>Random trees\<close>

datatype gen_method = Grow | Full

text \<open>
  The terminal branch of \<open>_generate_random_ast\<close>: a variable \<open>randint(0, 2)\<close> or a constant
  \<open>choice([0, 1, 2, True, False])\<close>.
\<close>

definition const_choices :: "pyval list" where
  "const_choices = [PInt 0, PInt 1, PInt 2, PBool True, PBool False]"

definition random_terminal :: "rng \<Rightarrow> ast \<times> rng" where
  "random_terminal g =
     (let (r, g1) = random_random g
      in if r < 0.5
         then (let (i, g2) = random_below 3 g1 in (Var i, g2))
         else (let (j, g2) = random_below 5 g1 in (Const (const_choices ! j), g2)))"

text \<open>
  \<open>_generate_random_ast(max_depth, method)\<close> for \<open>max_depth \<ge> 0\<close>, and the list
  comprehension that generates the children one after the other. The test
  \<open>max_depth == 0 or (method == 'grow' and random.random() < 0.3)\<close> draws only if the
  depth is not 0 and the method is \<open>grow\<close>.
\<close>

fun generate_random_ast :: "nat \<Rightarrow> gen_method \<Rightarrow> rng \<Rightarrow> ast \<times> rng"
  and generate_children :: "nat \<Rightarrow> gen_method \<Rightarrow> nat \<Rightarrow> rng \<Rightarrow> ast list \<times> rng" where
  "generate_random_ast 0 meth g = random_terminal g"
| "generate_random_ast (Suc d) meth g =
     (let (early, g1) =
            (if meth = Grow then (let (r, g') = random_random g in (r < 0.3, g'))
             else (False, g))
      in if early then random_terminal g1
         else (let (p, g2) = random_below (length primitives) g1;
                   primitive = primitives ! p;
                   (children, g3) = generate_children d meth (genetic_get_arity primitive) g2
               in (Apply primitive children, g3)))"
| "generate_children d meth 0 g = ([], g)"
| "generate_children d meth (Suc k) g =
     (let (child, g1) = generate_random_ast d meth g;
          (children, g2) = generate_children d meth k g1
      in (child # children, g2))"

text \<open>\<open>initialize_population(max_depth)\<close>: the loop over \<open>i\<close> in \<open>range(population_size)\<close>.\<close>

fun initial_individuals :: "int \<Rightarrow> nat \<Rightarrow> nat list \<Rightarrow> rng \<Rightarrow> genetic_operator list \<times> rng" where
  "initial_individuals n max_depth [] g = ([], g)"
| "initial_individuals n max_depth (i # is) g =
     (let (a, g1) = generate_random_ast max_depth (if int i < n div 2 then Grow else Full) g;
          (rest, g2) = initial_individuals n max_depth is g1
      in (new_operator a # rest, g2))"

definition initialize_population ::
  "genetic_evolution \<Rightarrow> nat \<Rightarrow> rng \<Rightarrow> genetic_evolution \<times> rng" where
  "initialize_population s max_depth g =
     (let (pop, g') =
            initial_individuals (population_size s) max_depth [0..<nat (population_size s)] g
      in (s\<lparr>population := pop\<rparr>, g'))"

subsection \<open>Fitness and selection\<close>

text \<open>
  \<open>max(xs, key=key)\<close>: the first element with the greatest key; \<open>ValueError\<close> on an empty
  list. \<open>min\<close> likewise.
\<close>

fun py_max_by :: "('a \<Rightarrow> real) \<Rightarrow> 'a list \<Rightarrow> py_error + 'a" where
  "py_max_by key [] = Inl ValueError"
| "py_max_by key (x # xs) = Inr (foldl (\<lambda>best y. if key y > key best then y else best) x xs)"

fun py_min_by :: "('a \<Rightarrow> real) \<Rightarrow> 'a list \<Rightarrow> py_error + 'a" where
  "py_min_by key [] = Inl ValueError"
| "py_min_by key (x # xs) = Inr (foldl (\<lambda>best y. if key y < key best then y else best) x xs)"

text \<open>
  A fitness function takes a tree and returns a score or raises. The first loop of
  \<open>evaluate_fitness\<close> stores the score of every individual, 0 if the function raised.
\<close>

type_synonym fitness_function = "ast \<Rightarrow> py_error + real"

definition score :: "fitness_function \<Rightarrow> genetic_operator \<Rightarrow> genetic_operator" where
  "score fitness_function operator =
     operator\<lparr>fitness := (case fitness_function (ast operator) of Inl e \<Rightarrow> 0 | Inr v \<Rightarrow> v)\<rparr>"

text \<open>
  \<open>evaluate_fitness\<close>: the exception it raises, if any, and the engine as it leaves it.
  \<open>max\<close> raises on an empty population, after the scores have been stored.
\<close>

definition evaluate_fitness ::
  "fitness_function \<Rightarrow> genetic_evolution \<Rightarrow> py_error option \<times> genetic_evolution" where
  "evaluate_fitness fitness_function s =
     (let pop = map (score fitness_function) (population s);
          s1 = s\<lparr>population := pop\<rparr>
      in case py_max_by fitness pop of
           Inl e \<Rightarrow> (Some e, s1)
         | Inr best_current \<Rightarrow>
             (let new_best =
                    (case best_ever s1 of
                       None \<Rightarrow> best_current
                     | Some b \<Rightarrow> if fitness best_current > fitness b then best_current else b);
                  s2 = s1\<lparr>best_ever := Some new_best\<rparr>
              in (None,
                  s2\<lparr>fitness_history := fitness_history s2 @
                       [\<lparr>stats_generation = generation s2,
                         avg_fitness = sum_list (map fitness pop) / real (length pop),
                         max_fitness = fitness best_current,
                         stats_best_ever = fitness new_best\<rparr>]\<rparr>)))"

text \<open>\<open>selection\<close>: the fittest of a sample of \<open>tournament_size\<close> individuals.\<close>

definition selection :: "genetic_evolution \<Rightarrow> rng \<Rightarrow> py_error + genetic_operator \<times> rng" where
  "selection s g =
     (case random_sample (population s) (tournament_size s) g of
        Inl e \<Rightarrow> Inl e
      | Inr (tournament, g') \<Rightarrow>
          (case py_max_by fitness tournament of
             Inl e \<Rightarrow> Inl e
           | Inr best \<Rightarrow> Inr (best, g')))"

subsection \<open>Subtrees, crossover and mutation\<close>

text \<open>\<open>_get_all_subtrees\<close>: the tree, then the subtrees of each child in order.\<close>

fun get_all_subtrees :: "ast \<Rightarrow> ast list" where
  "get_all_subtrees (Apply op_name children) =
     Apply op_name children # concat (map get_all_subtrees children)"
| "get_all_subtrees leaf = [leaf]"

text \<open>
  \<open>replace_in_ast\<close>, the local function of \<open>_replace_subtree\<close>: a node equal to the target
  becomes the new subtree; otherwise the children of an \<open>apply\<close> node are treated in turn.
\<close>

fun replace_in_ast :: "ast \<Rightarrow> ast \<Rightarrow> ast \<Rightarrow> ast" where
  "replace_in_ast target new_subtree node =
     (if ast_eq node target then new_subtree
      else (case node of
              Apply op_name children \<Rightarrow>
                Apply op_name (map (replace_in_ast target new_subtree) children)
            | _ \<Rightarrow> node))"

declare replace_in_ast.simps [simp del]

definition replace_subtree :: "ast \<Rightarrow> nat \<Rightarrow> ast \<Rightarrow> ast" where
  "replace_subtree a index new_subtree =
     (let subtrees = get_all_subtrees a
      in if index \<ge> length subtrees then a
         else replace_in_ast (subtrees ! index) new_subtree a)"

text \<open>
  \<open>crossover\<close>: with \<open>random.random() > crossover_rate\<close> the copies of the parents;
  otherwise a point in each parent's list of subtrees and the two replacements.
\<close>

definition crossover ::
  "genetic_evolution \<Rightarrow> genetic_operator \<Rightarrow> genetic_operator \<Rightarrow> rng
     \<Rightarrow> (genetic_operator \<times> genetic_operator) \<times> rng" where
  "crossover s parent1 parent2 g =
     (let (r, g1) = random_random g
      in if r > crossover_rate s then ((parent1, parent2), g1)
         else (let ast1 = ast parent1;
                   ast2 = ast parent2;
                   subtrees1 = get_all_subtrees ast1;
                   subtrees2 = get_all_subtrees ast2
               in if subtrees1 = [] \<or> subtrees2 = [] then ((parent1, parent2), g1)
                  else (let (point1, g2) = random_below (length subtrees1) g1;
                            (point2, g3) = random_below (length subtrees2) g2;
                            child1_ast = replace_subtree ast1 point1 (subtrees2 ! point2);
                            child2_ast = replace_subtree ast2 point2 (subtrees1 ! point1)
                        in ((new_operator child1_ast, new_operator child2_ast), g3))))"

text \<open>\<open>_point_mutation\<close>: it looks at the root of the tree it is given.\<close>

fun point_mutation :: "ast \<Rightarrow> rng \<Rightarrow> ast \<times> rng" where
  "point_mutation (Var i) g = (let (j, g') = random_below 3 g in (Var j, g'))"
| "point_mutation (Const v) g =
     (let (j, g') = random_below 5 g in (Const (const_choices ! j), g'))"
| "point_mutation (Apply op_name children) g =
     (let (p, g') = random_below (length primitives) g
      in (Apply (primitives ! p) children, g'))"
| "point_mutation (Primitive op_name) g = (Primitive op_name, g)"

datatype mutation_type = Point | Subtree | Hoist

text \<open>\<open>mutate\<close>\<close>

definition mutate :: "genetic_evolution \<Rightarrow> genetic_operator \<Rightarrow> rng \<Rightarrow> genetic_operator \<times> rng" where
  "mutate s operator g =
     (let (r, g1) = random_random g
      in if r > mutation_rate s then (operator, g1)
         else (let (t, g2) = random_below 3 g1;
                   mutation_type = [Point, Subtree, Hoist] ! t;
                   (mutated_ast, g3) =
                     (case mutation_type of
                        Point \<Rightarrow> point_mutation (ast operator) g2
                      | Subtree \<Rightarrow>
                          (let subtrees = get_all_subtrees (ast operator)
                           in if subtrees \<noteq> []
                              then (let (point, g') = random_below (length subtrees) g2;
                                        (new_subtree, g'') = generate_random_ast 2 Grow g'
                                    in (replace_subtree (ast operator) point new_subtree, g''))
                              else (ast operator, g2))
                      | Hoist \<Rightarrow>
                          (let subtrees = get_all_subtrees (ast operator)
                           in if length subtrees > 1
                              then (let (h, g') = random_below (length (tl subtrees)) g2
                                    in (tl subtrees ! h, g'))
                              else (ast operator, g2)))
               in (\<lparr>ast = mutated_ast, fitness = 0, age = 0,
                     mutations = mutations operator + 1\<rparr>, g3)))"

subsection \<open>Generations\<close>

text \<open>
  The \<open>while\<close> loop of \<open>evolve_generation\<close>, which fills the new population: two
  selections, crossover, two mutations; the second child is kept if there is room.
  A selection that raises ends the loop with the exception.
\<close>

function breed ::
  "genetic_evolution \<Rightarrow> genetic_operator list \<Rightarrow> rng \<Rightarrow> py_error + genetic_operator list \<times> rng" where
  "breed s new_population g =
     (if int (length new_population) < population_size s
      then (case selection s g of
              Inl e \<Rightarrow> Inl e
            | Inr (parent1, g1) \<Rightarrow>
                (case selection s g1 of
                   Inl e \<Rightarrow> Inl e
                 | Inr (parent2, g2) \<Rightarrow>
                     (let ((child1, child2), g3) = crossover s parent1 parent2 g2;
                          (child1, g4) = mutate s child1 g3;
                          (child2, g5) = mutate s child2 g4;
                          child1 = child1\<lparr>age := 0\<rparr>;
                          child2 = child2\<lparr>age := 0\<rparr>;
                          new_population = new_population @ [child1]
                      in breed s
                           (if int (length new_population) < population_size s
                            then new_population @ [child2] else new_population)
                           g5)))
      else Inr (new_population, g))"
  by pat_completeness auto
termination
  by (relation "measure (\<lambda>(s, new_population, g).
        nat (population_size s - int (length new_population)))") auto

declare breed.simps [simp del]

text \<open>
  \<open>evolve_generation\<close>: the exception it raises, if any, the engine as it leaves it, and the
  generator. The new population starts with a copy of the best individual. Ageing the
  individuals of the old population changes objects that the engine then drops.
\<close>

definition evolve_generation ::
  "fitness_function \<Rightarrow> genetic_evolution \<Rightarrow> rng \<Rightarrow> py_error option \<times> genetic_evolution \<times> rng" where
  "evolve_generation fitness_function s g =
     (case evaluate_fitness fitness_function s of
        (Some e, s1) \<Rightarrow> (Some e, s1, g)
      | (None, s1) \<Rightarrow>
          (case py_max_by fitness (population s1) of
             Inl e \<Rightarrow> (Some e, s1, g)
           | Inr best \<Rightarrow>
               (case breed s1 [best] g of
                  Inl e \<Rightarrow> (Some e, s1, g)
                | Inr (new_population, g') \<Rightarrow>
                    (None,
                     s1\<lparr>population := new_population, generation := generation s1 + 1\<rparr>,
                     g'))))"

text \<open>
  \<open>run_evolution\<close>: \<open>generations\<close> calls of \<open>evolve_generation\<close>, the first exception ending
  the run; it returns \<open>best_ever\<close>.
\<close>

fun evolve_generations ::
  "fitness_function \<Rightarrow> nat \<Rightarrow> genetic_evolution \<Rightarrow> rng \<Rightarrow> py_error option \<times> genetic_evolution \<times> rng" where
  "evolve_generations fitness_function 0 s g = (None, s, g)"
| "evolve_generations fitness_function (Suc n) s g =
     (case evolve_generation fitness_function s g of
        (Some e, s1, g1) \<Rightarrow> (Some e, s1, g1)
      | (None, s1, g1) \<Rightarrow> evolve_generations fitness_function n s1 g1)"

definition run_evolution ::
  "fitness_function \<Rightarrow> int \<Rightarrow> genetic_evolution \<Rightarrow> rng
     \<Rightarrow> (py_error + genetic_operator option) \<times> genetic_evolution \<times> rng" where
  "run_evolution fitness_function generations s g =
     (case evolve_generations fitness_function (nat generations) s g of
        (Some e, s1, g1) \<Rightarrow> (Inl e, s1, g1)
      | (None, s1, g1) \<Rightarrow> (Inr (best_ever s1), s1, g1))"

section \<open>The meta-learner (meta\_learner.py)\<close>

text \<open>
  What a strategy function returns: a result object, \<open>None\<close>, or an exception
  (\<open>Inl\<close>). Of a result object the learner reads the attribute \<open>cost\<close>, if it has one.
\<close>

record synthesis_result =
  result_cost :: "real option"

type_synonym strategy_function = "io_example list \<Rightarrow> real \<Rightarrow> py_error + synthesis_result option"

record synthesis_strategy =
  name :: string
  synthesize_func :: strategy_function
  success_count :: int
  failure_count :: int
  total_time :: real
  avg_program_size :: real

record problem_characteristics =
  num_examples :: int
  input_types :: "string list"
  output_type :: string
  example_complexity :: real

text \<open>\<open>f"{self.num_examples}_{len(self.input_types)}_{self.output_type}"\<close>\<close>

definition signature :: "problem_characteristics \<Rightarrow> string" where
  "signature p =
     str_int (num_examples p) @ ''_'' @ str_nat (length (input_types p)) @ ''_'' @ output_type p"

text \<open>The dictionaries appended to \<open>success_patterns\<close> and to \<open>problem_history\<close>.\<close>

record success_record =
  success_strategy :: string
  success_time :: real
  success_program_size :: real

record history_entry =
  history_problem :: problem_characteristics
  history_strategy :: string
  history_success :: bool
  history_time :: real
  history_error :: "py_error option"

text \<open>
  The dictionaries of the learner are association lists in insertion order; \<open>AList.update\<close>
  replaces the value of a key that is present and appends a new key, as assignment to a
  dictionary does.
\<close>

record meta_learner =
  strategies :: "(string \<times> synthesis_strategy) list"
  problem_history :: "history_entry list"
  strategy_mapping :: "(string \<times> string) list"
  success_patterns :: "(string \<times> success_record list) list"

definition new_meta_learner :: meta_learner where
  "new_meta_learner =
     \<lparr>strategies = [], problem_history = [], strategy_mapping = [], success_patterns = []\<rparr>"

definition register_strategy :: "meta_learner \<Rightarrow> string \<Rightarrow> strategy_function \<Rightarrow> meta_learner" where
  "register_strategy s strategy_name f =
     s\<lparr>strategies := AList.update strategy_name
          \<lparr>name = strategy_name, synthesize_func = f, success_count = 0, failure_count = 0,
           total_time = 0, avg_program_size = 0\<rparr>
          (strategies s)\<rparr>"

text \<open>
  \<open>select_strategy\<close>: the learned mapping, else \<open>'enumerative'\<close> if it is registered, else
  a random choice among the registered names.
\<close>

definition select_strategy ::
  "meta_learner \<Rightarrow> problem_characteristics \<Rightarrow> rng \<Rightarrow> py_error + string \<times> rng" where
  "select_strategy s problem_chars g =
     (case map_of (strategy_mapping s) (signature problem_chars) of
        Some strategy_name \<Rightarrow> Inr (strategy_name, g)
      | None \<Rightarrow>
          if ''enumerative'' \<in> set (map fst (strategies s)) then Inr (''enumerative'', g)
          else random_choice (map fst (strategies s)) g)"

text \<open>Reading a \<open>defaultdict(list)\<close>: the list of a key, empty for a new key.\<close>

definition lookup_list :: "('k \<times> 'v list) list \<Rightarrow> 'k \<Rightarrow> 'v list" where
  "lookup_list d k = (case map_of d k of None \<Rightarrow> [] | Some vs \<Rightarrow> vs)"

text \<open>
  The loop of \<open>_update_strategy_mapping\<close> that fills \<open>strategy_times\<close>: the time of each
  success is appended to the list of its strategy.
\<close>

fun collect_times :: "success_record list \<Rightarrow> (string \<times> real list) list \<Rightarrow> (string \<times> real list) list" where
  "collect_times [] strategy_times = strategy_times"
| "collect_times (success # successes) strategy_times =
     collect_times successes
       (AList.update (success_strategy success)
          (lookup_list strategy_times (success_strategy success) @ [success_time success])
          strategy_times)"

text \<open>
  The key of \<open>min\<close>: \<open>sum(x[1]) / len(x[1])\<close>. The times are floats, each standing for
  the real number it denotes, and the sum and the quotient are float arithmetic: the float
  they give for a list of times depends on the rounding of each operation and on the
  summation algorithm of the interpreter, and is not the exact mean in general. That
  function from the list of times to the resulting float is the parameter \<open>float_mean\<close>
  of the model.
\<close>

definition average_time :: "(real list \<Rightarrow> real) \<Rightarrow> string \<times> real list \<Rightarrow> real" where
  "average_time float_mean x = float_mean (snd x)"

text \<open>
  \<open>_update_strategy_mapping\<close>. Reading \<open>self.success_patterns[signature]\<close> enters the
  signature with an empty list if it is new.
\<close>

definition update_strategy_mapping ::
  "(real list \<Rightarrow> real) \<Rightarrow> meta_learner \<Rightarrow> problem_characteristics \<Rightarrow> string \<Rightarrow> meta_learner" where
  "update_strategy_mapping float_mean s problem_chars successful_strategy =
     (let sig = signature problem_chars;
          successes = lookup_list (success_patterns s) sig;
          s1 = s\<lparr>success_patterns := AList.update sig successes (success_patterns s)\<rparr>
      in if successes = [] then s1
         else (case py_min_by (average_time float_mean) (collect_times successes []) of
                 Inl e \<Rightarrow> s1
               | Inr best \<Rightarrow>
                   s1\<lparr>strategy_mapping := AList.update sig (fst best) (strategy_mapping s1)\<rparr>))"

text \<open>The branch of \<open>attempt_synthesis\<close> for a result that is not \<open>None\<close>.\<close>

definition record_success ::
  "(real list \<Rightarrow> real) \<Rightarrow> meta_learner \<Rightarrow> problem_characteristics \<Rightarrow> string
     \<Rightarrow> synthesis_strategy \<Rightarrow> synthesis_result \<Rightarrow> real \<Rightarrow> meta_learner" where
  "record_success float_mean s problem_chars strategy_name strategy result elapsed =
     (let strategy1 = strategy\<lparr>success_count := success_count strategy + 1,
                               total_time := total_time strategy + elapsed\<rparr>;
          strategy2 =
            (case result_cost result of
               None \<Rightarrow> strategy1
             | Some c \<Rightarrow>
                 strategy1\<lparr>avg_program_size :=
                   (avg_program_size strategy1 * real_of_int (success_count strategy1 - 1) + c)
                     / real_of_int (success_count strategy1)\<rparr>);
          s1 = s\<lparr>strategies := AList.update strategy_name strategy2 (strategies s)\<rparr>;
          sig = signature problem_chars;
          s2 = s1\<lparr>success_patterns :=
                 AList.update sig
                   (lookup_list (success_patterns s1) sig @
                      [\<lparr>success_strategy = strategy_name, success_time = elapsed,
                        success_program_size =
                          (case result_cost result of None \<Rightarrow> 0 | Some c \<Rightarrow> c)\<rparr>])
                   (success_patterns s1)\<rparr>;
          s3 = update_strategy_mapping float_mean s2 problem_chars strategy_name
      in s3\<lparr>problem_history := problem_history s3 @
              [\<lparr>history_problem = problem_chars, history_strategy = strategy_name,
                history_success = True, history_time = elapsed, history_error = None\<rparr>]\<rparr>)"

text \<open>
  The branch for the result \<open>None\<close> and the handler of \<open>except Exception\<close>, which differ in
  the error noted in the history.
\<close>

definition record_failure ::
  "meta_learner \<Rightarrow> problem_characteristics \<Rightarrow> string \<Rightarrow> synthesis_strategy
     \<Rightarrow> py_error option \<Rightarrow> real \<Rightarrow> meta_learner" where
  "record_failure s problem_chars strategy_name strategy err elapsed =
     (let strategy1 = strategy\<lparr>failure_count := failure_count strategy + 1,
                               total_time := total_time strategy + elapsed\<rparr>;
          s1 = s\<lparr>strategies := AList.update strategy_name strategy1 (strategies s)\<rparr>
      in s1\<lparr>problem_history := problem_history s1 @
              [\<lparr>history_problem = problem_chars, history_strategy = strategy_name,
                history_success = False, history_time = elapsed, history_error = err\<rparr>]\<rparr>)"

text \<open>
  \<open>attempt_synthesis(problem_chars, examples, timeout)\<close>; \<open>elapsed\<close> is the difference of
  the two readings of the clock around the call of the strategy, \<open>float_mean\<close> the float
  arithmetic of the mean of a list of times. The result is what the
  method returns or the exception it raises, the learner as it leaves it, and the
  generator. Selecting the strategy and looking it up happen before the \<open>try\<close>.
\<close>

definition attempt_synthesis ::
  "(real list \<Rightarrow> real) \<Rightarrow> meta_learner \<Rightarrow> problem_characteristics \<Rightarrow> io_example list
     \<Rightarrow> real \<Rightarrow> real \<Rightarrow> rng \<Rightarrow> (py_error + synthesis_result option) \<times> meta_learner \<times> rng" where
  "attempt_synthesis float_mean s problem_chars examples timeout elapsed g =
     (case select_strategy s problem_chars g of
        Inl e \<Rightarrow> (Inl e, s, g)
      | Inr (strategy_name, g') \<Rightarrow>
          (case map_of (strategies s) strategy_name of
             None \<Rightarrow> (Inl (KeyError strategy_name), s, g')
           | Some strategy \<Rightarrow>
               (case synthesize_func strategy examples timeout of
                  Inr (Some result) \<Rightarrow>
                    (Inr (Some result),
                     record_success float_mean s problem_chars strategy_name strategy result
                       elapsed, g')
                | Inr None \<Rightarrow>
                    (Inr None,
                     record_failure s problem_chars strategy_name strategy None elapsed, g')
                | Inl e \<Rightarrow>
                    (Inr None,
                     record_failure s problem_chars strategy_name strategy (Some e) elapsed,
                     g'))))"

section \<open>Definitions used to state the properties\<close>

text \<open>
  The number of training examples among \<open>n\<close> examples: all of them below two examples,
  otherwise two thirds of \<open>n\<close> rounded down.
\<close>

definition train_count :: "nat \<Rightarrow> nat" where
  "train_count n = (if n < 2 then n else nat \<lfloor>2 * real n / 3\<rfloor>)"

text \<open>Two examples \<open>f(1) = 1\<close> and \<open>f(2) = 5\<close>.\<close>

definition ex_a :: io_example where
  "ex_a = \<lparr>inputs = [PInt 1], output_val = PInt 1\<rparr>"

definition ex_b :: io_example where
  "ex_b = \<lparr>inputs = [PInt 2], output_val = PInt 5\<rparr>"

text \<open>The first element of a list that a partial function accepts, with its result.\<close>

fun first_some :: "('a \<Rightarrow> 'b option) \<Rightarrow> 'a list \<Rightarrow> 'b option" where
  "first_some f [] = None"
| "first_some f (x # xs) = (case f x of Some y \<Rightarrow> Some y | None \<Rightarrow> first_some f xs)"

text \<open>
  The candidates within a budget that applies to each size separately: for every size in
  turn, the first \<open>timeout_programs\<close> trees of that size, each with its size.
\<close>

definition budgeted_candidates :: "registry \<Rightarrow> int \<Rightarrow> nat list \<Rightarrow> (nat \<times> ast) list" where
  "budgeted_candidates ops timeout_programs sizes =
     concat (map (\<lambda>sz. map (Pair sz) (take (nat timeout_programs) (enumerate_programs ops sz)))
               sizes)"

text \<open>One example \<open>f(1, 2) = False\<close>.\<close>

definition ex_c :: io_example where
  "ex_c = \<lparr>inputs = [PInt 1, PInt 2], output_val = PBool False\<rparr>"

text \<open>Compiling a tree and calling the compiled function on arguments.\<close>

definition run_ast :: "registry \<Rightarrow> ast \<Rightarrow> pyval list \<Rightarrow> py_error + pyval" where
  "run_ast ops program_ast args =
     (case compile_ast ops program_ast of Inl e \<Rightarrow> Inl e | Inr f \<Rightarrow> f args)"

text \<open>The tree \<open>if(arg0, arg1, add(arg1, arg2))\<close>.\<close>

definition if_program :: ast where
  "if_program = Apply ''if'' [Var 0, Var 1, Apply ''add'' [Var 1, Var 2]]"

text \<open>
  The \<open>k\<close>-th iterate \<open>f(f(\<dots>f(x)))\<close>, an exception of \<open>f\<close> on the way being the
  result; and whether the \<open>k\<close>-th iterate \<open>y\<close> exists and satisfies \<open>f(y) == y\<close>.
\<close>

fun iterate_f :: "('a \<Rightarrow> 'e + 'a) \<Rightarrow> nat \<Rightarrow> 'a \<Rightarrow> 'e + 'a" where
  "iterate_f f 0 x = Inr x"
| "iterate_f f (Suc n) x = (case f x of Inl e \<Rightarrow> Inl e | Inr y \<Rightarrow> iterate_f f n y)"

definition is_fixpoint_at ::
  "('a \<Rightarrow> 'e + 'a) \<Rightarrow> ('a \<Rightarrow> 'a \<Rightarrow> bool) \<Rightarrow> 'a \<Rightarrow> nat \<Rightarrow> bool" where
  "is_fixpoint_at f eq x k =
     (case iterate_f f k x of
        Inl e \<Rightarrow> False
      | Inr y \<Rightarrow> (case f y of Inl e \<Rightarrow> False | Inr y' \<Rightarrow> eq y' y))"

text \<open>
  The invariant of the trees of the genetic engine: at every \<open>apply\<close> node the number of
  children is the arity that \<open>_get_arity\<close> gives for the operator.
\<close>

fun arity_ok :: "ast \<Rightarrow> bool" where
  "arity_ok (Apply op_name children) =
     (length children = genetic_get_arity op_name \<and> list_all arity_ok children)"
| "arity_ok leaf = True"

text \<open>An engine with the default parameters, some individuals and some draws.\<close>

definition default_engine :: genetic_evolution where
  "default_engine = new_genetic_evolution 100 0.1 0.7 5"

definition add_tree :: genetic_operator where
  "add_tree = new_operator (Apply ''add'' [Var 0, Var 1])"

definition point_draws :: rng where
  "point_draws = (\<lambda>i. if i = 2 then 6 else 0)"

definition twin_tree :: genetic_operator where
  "twin_tree = new_operator (Apply ''add'' [Var 0, Var 0])"

definition leaf_tree :: genetic_operator where
  "leaf_tree = new_operator (Var 1)"

definition cross_draws :: rng where
  "cross_draws = (\<lambda>i. if i = 1 then 1 else 0)"

text \<open>
  Any sequence of calls of \<open>evolve_generation\<close> on one engine, each with its own fitness
  function and its own draws; a call that raises leaves the engine as it is at that point,
  and the next call goes on from there.
\<close>

fun evolve_sequence ::
  "(fitness_function \<times> rng) list \<Rightarrow> genetic_evolution \<Rightarrow> genetic_evolution" where
  "evolve_sequence [] s = s"
| "evolve_sequence ((ff, g) # calls) s =
     evolve_sequence calls (fst (snd (evolve_generation ff s g)))"

text \<open>
  An engine of two individuals whose \<open>best_ever\<close> has fitness 1, and a fitness function
  that gives 3 to constants and 1 to all other trees.
\<close>

definition stale_best :: genetic_operator where
  "stale_best = \<lparr>ast = Var 0, fitness = 1, age = 0, mutations = 0\<rparr>"

definition small_engine :: genetic_evolution where
  "small_engine =
     (new_genetic_evolution 2 0.1 0.7 1)
       \<lparr>population := [new_operator (Var 0), new_operator (Const (PInt 1))],
        best_ever := Some stale_best\<rparr>"

definition const_fitness :: fitness_function where
  "const_fitness a = (case a of Const v \<Rightarrow> Inr 3 | _ \<Rightarrow> Inr 1)"










text \<open>The mean of a list of times in exact arithmetic.\<close>

definition exact_mean :: "real list \<Rightarrow> real" where
  "exact_mean ts = sum_list ts / real (length ts)"

text \<open>A problem with the signature \<open>4_1_int\<close>, some strategy functions and some learners.\<close>

definition int_problem :: problem_characteristics where
  "int_problem = \<lparr>num_examples = 4, input_types = [''int''], output_type = ''int'',
                   example_complexity = 1\<rparr>"

definition no_program :: strategy_function where
  "no_program examples timeout = Inr None"

definition raising_program :: strategy_function where
  "raising_program examples timeout = Inl ValueError"




definition quiet_learner :: meta_learner where
  "quiet_learner = register_strategy new_meta_learner ''enumerative'' no_program"

definition raising_learner :: meta_learner where
  "raising_learner = register_strategy new_meta_learner ''enumerative'' raising_program"

section \<open>Properties of the enumerative synthesizer\<close>

lemma enumerate_programs_1:
  "enumerate_programs ops (Suc 0) =
     map (\<lambda>entry. Primitive (fst entry)) ops @ [Var 0, Var 1, Var 2]"
  by (simp add: enumerate_programs.simps upt_rec)

lemma size_range_10: "size_range 10 = [1, 2, 3, 4, 5, 6, 7, 8, 9, 10]"
  by (simp add: size_range_def upt_rec)

text \<open>
  From a positive total, every part of a partition is positive: the enumeration never
  reaches size 0 from a size of at least 1.
\<close>

lemma partitions_parts_pos:
  "p \<in> set (partitions n k) \<Longrightarrow> 0 < n \<Longrightarrow> s \<in> set p \<Longrightarrow> 0 < s"
proof (induction n k arbitrary: p rule: partitions.induct)
  case (1 n)
  then show ?case by simp
next
  case (2 n)
  then show ?case by simp
next
  case (3 n k)
  from "3.prems"(1) obtain i rest where
    i: "i \<in> set [1..<n]" and rest: "rest \<in> set (partitions (n - i) (Suc k))"
    and part: "p = i # rest"
    by auto
  show ?case
  proof (cases "s = i")
    case True
    with i show ?thesis by simp
  next
    case False
    with part "3.prems"(3) have "s \<in> set rest" by simp
    moreover from i have "0 < n - i" by simp
    ultimately show ?thesis using "3.IH" [OF i rest] by blast
  qed
qed

subsection \<open>The split into training and held-out examples\<close>

lemma floor_two_thirds: "nat \<lfloor>2 * real n / 3\<rfloor> = n * 2 div 3"
proof -
  have "\<lfloor>2 * real n / 3\<rfloor> = \<lfloor>real_of_int (int (n * 2)) / real_of_int 3\<rfloor>"
    by (simp add: mult.commute)
  also have "\<dots> = int (n * 2) div 3"
    by (rule floor_divide_of_int_eq)
  finally show ?thesis by (simp add: nat_div_distrib)
qed

text \<open>
  C3, as the code has it: of \<open>n\<close> examples, \<open>synthesize\<close> trains on the first
  \<open>\<lfloor>2n/3\<rfloor>\<close> (rounded down, not up) and holds out the rest; with fewer than two
  examples all of them are training examples and none is held out. The search of
  \<open>synthesize\<close> runs on exactly this prefix and this suffix.
\<close>

theorem synthesize_split_floor:
  "split_examples examples =
     (take (train_count (length examples)) examples,
      drop (train_count (length examples)) examples)
   \<and> fst (synthesize s examples timeout_programs) =
       search_sizes (primitive_ops s)
         (take (train_count (length examples)) examples)
         (drop (train_count (length examples)) examples)
         timeout_programs (size_range (max_program_size s))"
proof -
  have split: "split_examples examples =
     (take (train_count (length examples)) examples,
      drop (train_count (length examples)) examples)"
    by (simp add: split_examples_def train_count_def floor_two_thirds Let_def)
  show ?thesis
    by (simp add: split synthesize_def split: option.splits)
qed

text \<open>
  C3 as stated fails for two examples: \<open>\<lceil>4/3\<rceil> = 2\<close>, but only the first example is a
  training example. \<open>synthesize\<close> returns \<open>identity\<close>, which matches \<open>f(1) = 1\<close>
  alone, and reports that it does not generalize to the held-out \<open>f(2) = 5\<close>.
\<close>

theorem split_ceiling_counterexample:
  "nat \<lceil>2 * real (length [ex_a, ex_b]) / 3\<rceil> = 2
   \<and> fst (split_examples [ex_a, ex_b]) = [ex_a]
   \<and> snd (split_examples [ex_a, ex_b]) = [ex_b]
   \<and> map_option code (fst (synthesize (new_synthesizer 10) [ex_a, ex_b] 10000))
       = Some ''identity''
   \<and> map_option examples_satisfied (fst (synthesize (new_synthesizer 10) [ex_a, ex_b] 10000))
       = Some 1
   \<and> map_option generalizes (fst (synthesize (new_synthesizer 10) [ex_a, ex_b] 10000))
       = Some False"
proof -
  have c: "nat \<lceil>2 * real (length [ex_a, ex_b]) / 3\<rceil> = 2"
    by (simp add: ceiling_divide_eq_div_numeral)
  have s: "split_examples [ex_a, ex_b] = ([ex_a], [ex_b])"
    by (simp add: split_examples_def)
  have r: "search_sizes initialize_primitives [ex_a] [ex_b] 10000 (size_range 10) =
     Some \<lparr>code = ''identity'', func = prim_identity, cost = 1, examples_satisfied = 1,
            generalizes = False\<rparr>"
    by (simp add: size_range_10 enumerate_programs_1 initialize_primitives_def
        check_candidate_def ex_a_def ex_b_def)
  show ?thesis
    by (simp add: c s r synthesize_def new_synthesizer_def)
qed

subsection \<open>The budget of candidates\<close>

lemma first_some_append:
  "first_some f (xs @ ys) = (case first_some f xs of Some y \<Rightarrow> Some y | None \<Rightarrow> first_some f ys)"
  by (induction xs) (auto split: option.splits)

lemma first_some_map: "first_some f (map g xs) = first_some (\<lambda>x. f (g x)) xs"
  by (induction xs) (auto split: option.splits)

lemma scan_candidates_take:
  "scan_candidates ops train test sz b c xs =
     first_some (check_candidate ops train test sz) (take (nat (b - c)) xs)"
proof (induction xs arbitrary: c)
  case Nil
  then show ?case by simp
next
  case (Cons x xs)
  show ?case
  proof (cases "b \<le> c")
    case True
    then show ?thesis by simp
  next
    case False
    then have "nat (b - c) = Suc (nat (b - (c + 1)))" by simp
    with False Cons.IH [of "c + 1"] show ?thesis
      by (simp split: option.splits)
  qed
qed

lemma search_sizes_budget:
  "search_sizes ops train test b sizes =
     first_some (\<lambda>(sz, a). check_candidate ops train test sz a) (budgeted_candidates ops b sizes)"
proof (induction sizes)
  case Nil
  then show ?case by (simp add: budgeted_candidates_def)
next
  case (Cons sz sizes)
  have "budgeted_candidates ops b (sz # sizes) =
      map (Pair sz) (take (nat b) (enumerate_programs ops sz)) @ budgeted_candidates ops b sizes"
    by (simp add: budgeted_candidates_def)
  with Cons show ?case
    by (simp add: first_some_append first_some_map scan_candidates_take split: option.splits)
qed

text \<open>
  C1, as the code has it: the budget applies to each size separately. The counter
  \<open>programs_checked\<close> starts again at 0 for every size, so at each size at most
  \<open>timeout_programs\<close> candidates are checked; when the budget of a size is used up the
  search goes on with the next size. \<open>synthesize\<close> returns the first accepted candidate
  among the first \<open>timeout_programs\<close> trees of size 1, then of size 2, and so on up to
  \<open>max_program_size\<close>, and \<open>None\<close> only if none of these is accepted.
\<close>

theorem synthesize_budget_per_size:
  "fst (synthesize s examples timeout_programs) =
     first_some (\<lambda>(sz, a). check_candidate (primitive_ops s)
                    (fst (split_examples examples)) (snd (split_examples examples)) sz a)
       (budgeted_candidates (primitive_ops s) timeout_programs (size_range (max_program_size s)))"
  by (simp add: synthesize_def search_sizes_budget split: prod.splits option.splits)

lemma enum1_base:
  "enumerate_programs initialize_primitives (Suc 0) =
     map Primitive [''add'', ''sub'', ''mul'', ''div'', ''and'', ''or'', ''not'', ''eq'', ''gt'', ''lt'',
       ''if'', ''identity'', ''const'', ''compose'', ''map'', ''filter'', ''reduce'', ''head'',
       ''tail'', ''cons'', ''fix''] @ [Var 0, Var 1, Var 2]"
  by (simp add: enumerate_programs_1 initialize_primitives_def)

lemma enum2_first: "\<exists>rest. enumerate_programs initialize_primitives 2 = Apply ''not'' [Primitive ''add''] # rest"
  apply (subst enumerate_programs.simps)
  apply (simp add: initialize_primitives_def enumerate_programs_1 numeral_2_eq_2)
  done

text \<open>
  C1 as stated fails: with a budget of one candidate and the example \<open>f(1, 2) = False\<close>,
  the one candidate checked at size 1 (\<open>add\<close>, which gives 3) is rejected, so the budget
  is used up; the search still goes on to size 2 and returns \<open>not(add)\<close> of cost 2.
\<close>

theorem budget_cumulative_counterexample:
  "take 1 (enumerate_programs initialize_primitives 1) = [Primitive ''add'']
   \<and> check_candidate initialize_primitives [ex_c] [] 1 (Primitive ''add'') = None
   \<and> map_option code (fst (synthesize (new_synthesizer 10) [ex_c] 1)) = Some ''not(add)''
   \<and> map_option cost (fst (synthesize (new_synthesizer 10) [ex_c] 1)) = Some 2"
proof -
  obtain rest where e2: "enumerate_programs initialize_primitives 2 = Apply ''not'' [Primitive ''add''] # rest"
    using enum2_first by blast
  have e1: "take 1 (enumerate_programs initialize_primitives 1) = [Primitive ''add'']"
    by (simp add: enumerate_programs_1 initialize_primitives_def)
  have c1: "check_candidate initialize_primitives [ex_c] [] 1 (Primitive ''add'') = None"
    by (simp add: check_candidate_def initialize_primitives_def ex_c_def)
  have c2: "check_candidate initialize_primitives [ex_c] [] 2 (Apply ''not'' [Primitive ''add'']) \<noteq> None"
    by (simp add: check_candidate_def initialize_primitives_def ex_c_def)
  have v: "check_candidate initialize_primitives [ex_c] [] 2 (Apply ''not'' [Primitive ''add'']) =
      Some \<lparr>code = ''not(add)'', func = (\<lambda>args. case collect (map (\<lambda>sub. sub args) [prim_add]) of Inl e \<Rightarrow> Inl e | Inr sub_results \<Rightarrow> prim_not sub_results), cost = 2, examples_satisfied = 1, generalizes = True\<rparr>"
    by (simp add: check_candidate_def initialize_primitives_def ex_c_def)
  have s1: "scan_candidates initialize_primitives [ex_c] [] 1 1 0 (enumerate_programs initialize_primitives 1) = None"
    by (simp add: enum1_base c1 [unfolded One_nat_def])
  have s2: "scan_candidates initialize_primitives [ex_c] [] 2 1 0 (enumerate_programs initialize_primitives 2) =
      check_candidate initialize_primitives [ex_c] [] 2 (Apply ''not'' [Primitive ''add''])"
    by (simp add: e2 v)
  have r: "search_sizes initialize_primitives [ex_c] [] 1 (size_range 10) =
      check_candidate initialize_primitives [ex_c] [] 2 (Apply ''not'' [Primitive ''add''])"
    unfolding size_range_10 by (simp only: search_sizes.simps s1 s2 v option.case)
  show ?thesis
    using e1 c1 by (simp add: r v synthesize_def new_synthesizer_def split_examples_def)
qed


subsection \<open>No examples\<close>

lemma size_range_Cons: "1 \<le> m \<Longrightarrow> \<exists>rest. size_range m = 1 # rest"
  by (simp add: size_range_def upt_conv_Cons)

lemma compile_first_candidate:
  "\<exists>f rest. enumerate_programs ops (Suc 0) = hd (enumerate_programs ops (Suc 0)) # rest
     \<and> compile_ast ops (hd (enumerate_programs ops (Suc 0))) = Inr f"
  by (cases ops) (auto simp: enumerate_programs_1)

text \<open>
  C10: with no examples, a maximal size of at least 1 and a positive budget, \<open>synthesize\<close>
  does not return \<open>None\<close>. The training set is empty, so the first candidate of size 1
  (the first name of the registry, or \<open>arg0\<close> if the registry is empty) is accepted: the
  result is its compiled function with cost 1, \<open>examples_satisfied = 0\<close> and
  \<open>generalizes = True\<close>, and it is appended to \<open>learned_programs\<close>.
\<close>

theorem synthesize_empty_examples:
  assumes "1 \<le> max_program_size s" and "0 < timeout_programs"
  shows "\<exists>p. synthesize s [] timeout_programs =
             (Some p, s\<lparr>learned_programs := learned_programs s @ [p]\<rparr>)
          \<and> code p = ast_to_code (hd (enumerate_programs (primitive_ops s) 1))
          \<and> compile_ast (primitive_ops s) (hd (enumerate_programs (primitive_ops s) 1)) = Inr (func p)
          \<and> cost p = 1 \<and> examples_satisfied p = 0 \<and> generalizes p"
proof -
  obtain f rest where
    e: "enumerate_programs (primitive_ops s) (Suc 0) =
          hd (enumerate_programs (primitive_ops s) (Suc 0)) # rest"
    and c: "compile_ast (primitive_ops s) (hd (enumerate_programs (primitive_ops s) (Suc 0))) = Inr f"
    using compile_first_candidate by blast
  let ?first = "hd (enumerate_programs (primitive_ops s) (Suc 0))"
  have k: "check_candidate (primitive_ops s) [] [] (Suc 0) ?first =
      Some \<lparr>code = ast_to_code ?first, func = f, cost = Suc 0, examples_satisfied = 0,
             generalizes = True\<rparr>"
    by (simp add: check_candidate_def c)
  have "scan_candidates (primitive_ops s) [] [] (Suc 0) timeout_programs 0
          (enumerate_programs (primitive_ops s) (Suc 0)) =
      Some \<lparr>code = ast_to_code ?first, func = f, cost = Suc 0, examples_satisfied = 0,
             generalizes = True\<rparr>"
    using assms(2) by (subst e) (simp add: k)
  moreover obtain sizes where "size_range (max_program_size s) = 1 # sizes"
    using size_range_Cons [OF assms(1)] by blast
  ultimately show ?thesis
    using c by (simp add: synthesize_def split_examples_def)
qed

text \<open>With the base registry the program returned for no examples is \<open>add\<close>.\<close>

theorem synthesize_empty_examples_witness:
  "1 \<le> max_program_size (new_synthesizer 10) \<and> (0::int) < 1
   \<and> map_option code (fst (synthesize (new_synthesizer 10) [] 1)) = Some ''add''
   \<and> map_option cost (fst (synthesize (new_synthesizer 10) [] 1)) = Some 1
   \<and> map_option examples_satisfied (fst (synthesize (new_synthesizer 10) [] 1)) = Some 0
   \<and> map_option generalizes (fst (synthesize (new_synthesizer 10) [] 1)) = Some True"
proof -
  have m: "1 \<le> max_program_size (new_synthesizer 10)" and b: "(0::int) < 1"
    by (simp_all add: new_synthesizer_def)
  have h: "ast_to_code (hd (enumerate_programs (primitive_ops (new_synthesizer 10)) 1)) = ''add''"
    by (simp add: new_synthesizer_def enumerate_programs_1 initialize_primitives_def)
  from synthesize_empty_examples [OF m b] h m show ?thesis
    by auto
qed

subsection \<open>Evaluation of compiled trees\<close>

lemma collect_Inr_map: "collect rs = Inr vs \<Longrightarrow> rs = map Inr vs"
  by (induction rs arbitrary: vs) (auto split: sum.splits)

lemma collect_first_error:
  "i < length rs \<Longrightarrow> rs ! i = Inl e \<Longrightarrow> (\<And>j. j < i \<Longrightarrow> \<exists>v. rs ! j = Inr v) \<Longrightarrow> collect rs = Inl e"
proof (induction rs arbitrary: i)
  case Nil
  then show ?case by simp
next
  case (Cons r rs)
  show ?case
  proof (cases i)
    case 0
    with Cons.prems show ?thesis by simp
  next
    case (Suc k)
    with Cons.prems(3) [of 0] obtain v where v: "r = Inr v" by auto
    have "collect rs = Inl e"
    proof (rule Cons.IH [of k])
      show "k < length rs" using Cons.prems(1) Suc by simp
      show "rs ! k = Inl e" using Cons.prems(2) Suc by simp
      show "\<exists>v. rs ! j = Inr v" if "j < k" for j
        using Cons.prems(3) [of "Suc j"] that Suc by simp
    qed
    with v show ?thesis by simp
  qed
qed

lemma collect_map_Inr: "collect (map Inr vs) = Inr vs"
  by (induction vs) auto

text \<open>
  C4, as the code has it: the function compiled from any \<open>apply\<close> node, \<open>if\<close>
  included, first computes the results of all its children on the arguments, from left to
  right, and then calls the operator on the results; the first exception of a child is the
  exception of the node. The \<open>if\<close> primitive only selects one of two values that have
  both been computed.
\<close>

theorem apply_evaluates_all_children:
  assumes "compile_ast ops (Apply op_name subprograms) = Inr f"
  shows "\<exists>op_func. map_of ops op_name = Some op_func
          \<and> f args = (case collect (map (\<lambda>sub. run_ast ops sub args) subprograms) of
                        Inl e \<Rightarrow> Inl e
                      | Inr sub_results \<Rightarrow> op_func sub_results)"
proof -
  from assms obtain op_func compiled_subs where
    op: "map_of ops op_name = Some op_func"
    and subs: "collect (map (compile_ast ops) subprograms) = Inr compiled_subs"
    and f: "f = (\<lambda>args. case collect (map (\<lambda>sub. sub args) compiled_subs) of
                   Inl e \<Rightarrow> Inl e | Inr sub_results \<Rightarrow> op_func sub_results)"
    by (auto split: option.splits sum.splits)
  from subs have m: "map (compile_ast ops) subprograms = map Inr compiled_subs"
    by (rule collect_Inr_map)
  have "map (\<lambda>sub. run_ast ops sub args) subprograms =
        map (\<lambda>r. case r of Inl e \<Rightarrow> Inl e | Inr g \<Rightarrow> g args) (map (compile_ast ops) subprograms)"
    by (simp add: run_ast_def)
  also have "\<dots> = map (\<lambda>sub. sub args) compiled_subs"
    by (simp add: m)
  finally show ?thesis
    using op f by simp
qed

text \<open>
  C4 as stated fails: on the arguments \<open>(True, 7)\<close> the condition of
  \<open>if(arg0, arg1, add(arg1, arg2))\<close> is true and the selected branch gives 7, but the
  other branch is computed as well; it raises \<open>TypeError\<close> (\<open>7 + None\<close>), and so
  does the whole program.
\<close>

theorem if_both_branches_counterexample:
  "run_ast initialize_primitives (Var 0) [PBool True, PInt 7] = Inr (PBool True)
   \<and> run_ast initialize_primitives (Var 1) [PBool True, PInt 7] = Inr (PInt 7)
   \<and> run_ast initialize_primitives (Apply ''add'' [Var 1, Var 2]) [PBool True, PInt 7] = Inl TypeError
   \<and> run_ast initialize_primitives if_program [PBool True, PInt 7] = Inl TypeError"
  by (simp add: run_ast_def if_program_def initialize_primitives_def)

text \<open>The same tree on three arguments, where both branches have a value, and on two.\<close>

theorem apply_evaluates_all_children_witness:
  "\<exists>f. compile_ast initialize_primitives if_program = Inr f
     \<and> f [PBool True, PInt 3, PInt 4] = Inr (PInt 3)
     \<and> f [PBool True, PInt 3] = Inl TypeError"
proof -
  obtain f where c: "compile_ast initialize_primitives
      (Apply ''if'' [Var 0, Var 1, Apply ''add'' [Var 1, Var 2]]) = Inr f"
    by (simp add: initialize_primitives_def)
  have i: "map_of initialize_primitives ''if'' = Some prim_if"
    by (simp add: initialize_primitives_def)
  have r1: "collect (map (\<lambda>sub. run_ast initialize_primitives sub [PBool True, PInt 3, PInt 4])
              [Var 0, Var 1, Apply ''add'' [Var 1, Var 2]]) = Inr [PBool True, PInt 3, PInt 7]"
    by (simp add: run_ast_def initialize_primitives_def)
  have r2: "collect (map (\<lambda>sub. run_ast initialize_primitives sub [PBool True, PInt 3])
              [Var 0, Var 1, Apply ''add'' [Var 1, Var 2]]) = Inl TypeError"
    by (simp add: run_ast_def initialize_primitives_def)
  have "f [PBool True, PInt 3, PInt 4] = Inr (PInt 3)"
    using apply_evaluates_all_children [OF c, of "[PBool True, PInt 3, PInt 4]"] i r1 by simp
  moreover have "f [PBool True, PInt 3] = Inl TypeError"
    using apply_evaluates_all_children [OF c, of "[PBool True, PInt 3]"] i r2 by simp
  ultimately show ?thesis
    using c by (simp add: if_program_def)
qed

subsection \<open>The bounded fixed point\<close>

lemma find_map: "List.find P (map g xs) = map_option g (List.find (\<lambda>x. P (g x)) xs)"
  by (induction xs) auto

lemma is_fixpoint_at_0:
  "is_fixpoint_at f eq r 0 = (case f r of Inl e \<Rightarrow> False | Inr y \<Rightarrow> eq y r)"
  by (simp add: is_fixpoint_at_def)

lemma is_fixpoint_at_Suc:
  "is_fixpoint_at f eq r (Suc k) = (case f r of Inl e \<Rightarrow> False | Inr y \<Rightarrow> is_fixpoint_at f eq y k)"
  by (simp add: is_fixpoint_at_def split: sum.splits)

lemma find_never: "(\<And>x. \<not> P x) \<Longrightarrow> List.find P xs = None"
  by (induction xs) auto

lemma fix_loop_result:
  "snd (fix_loop f eq n r) =
     (case List.find (is_fixpoint_at f eq r) [0..<n] of
        Some k \<Rightarrow> iterate_f f k r
      | None \<Rightarrow> iterate_f f n r)"
proof (induction n arbitrary: r)
  case 0
  then show ?case by simp
next
  case (Suc n)
  have u: "[0..<Suc n] = 0 # map Suc [0..<n]"
    by (simp add: upt_conv_Cons map_Suc_upt del: upt_Suc)
  show ?case
  proof (cases "f r")
    case (Inl e)
    then have "List.find (\<lambda>k. is_fixpoint_at f eq r (Suc k)) [0..<n] = None"
      by (intro find_never) (simp add: is_fixpoint_at_Suc)
    with Inl show ?thesis
      unfolding u by (simp add: is_fixpoint_at_0 find_map)
  next
    case (Inr y)
    show ?thesis
    proof (cases "eq y r")
      case True
      with Inr show ?thesis unfolding u by (simp add: is_fixpoint_at_0)
    next
      case False
      have "(\<lambda>k. is_fixpoint_at f eq r (Suc k)) = is_fixpoint_at f eq y"
        using Inr by (simp add: is_fixpoint_at_Suc fun_eq_iff)
      with Inr False Suc.IH [of y] show ?thesis
        unfolding u by (simp add: is_fixpoint_at_0 find_map case_prod_beta split: option.splits)
    qed
  qed
qed

lemma fix_loop_calls: "fst (fix_loop f eq n r) \<le> n"
proof (induction n arbitrary: r)
  case 0
  then show ?case by simp
next
  case (Suc n)
  show ?case
  proof (cases "f r")
    case (Inl e)
    then show ?thesis by simp
  next
    case (Inr y)
    with Suc [of y] show ?thesis by (simp add: case_prod_beta)
  qed
qed

text \<open>
  C9: for every \<open>f\<close>, every comparison and every start value \<open>x\<close>, \<open>fix_fn\<close> calls
  \<open>f\<close> at most 100 times and returns: the first of the iterates
  \<open>x, f(x), \<dots>, f\<^sup>9\<^sup>9(x)\<close> that is a fixed point (\<open>f(y) == y\<close>), if there is one, and
  otherwise the value after the 100th call, \<open>f\<^sup>1\<^sup>0\<^sup>0(x)\<close> (an exception of \<open>f\<close> before
  any fixed point is the outcome, as it is of the iteration). The loop is a total function
  of \<open>f\<close> and \<open>x\<close>: it always ends.
\<close>

theorem fixed_point_bounded:
  "fst (fixed_point f eq x) \<le> 100
   \<and> snd (fixed_point f eq x) =
       (case List.find (is_fixpoint_at f eq x) [0..<100] of
          Some k \<Rightarrow> iterate_f f k x
        | None \<Rightarrow> iterate_f f 100 x)"
  by (simp add: fixed_point_def fix_loop_calls fix_loop_result)

lemma upt_4: "[0..<100] = 0 # 1 # 2 # 3 # [4..<100]"
  by (simp add: upt_conv_Cons)

text \<open>Halving from 5: \<open>5, 2, 1, 0\<close>; the iterate 3 is the fixed point 0, after 4 calls.\<close>

theorem fixed_point_bounded_witness:
  "fixed_point (\<lambda>v::int. (Inr (v div 2) :: unit + int)) (=) 5 = (4, Inr 0)
   \<and> List.find (is_fixpoint_at (\<lambda>v::int. (Inr (v div 2) :: unit + int)) (=) 5) [0..<100] = Some 3"
proof -
  have f: "List.find (is_fixpoint_at (\<lambda>v::int. (Inr (v div 2) :: unit + int)) (=) 5) [0..<100] = Some 3"
    unfolding upt_4 by (simp add: is_fixpoint_at_def eval_nat_numeral)
  have c: "fst (fixed_point (\<lambda>v::int. (Inr (v div 2) :: unit + int)) (=) 5) = 4"
    by (simp add: fixed_point_def eval_nat_numeral)
  from fixed_point_bounded [of "\<lambda>v::int. (Inr (v div 2) :: unit + int)" "(=)" 5] f c show ?thesis
    by (simp add: prod_eq_iff eval_nat_numeral)
qed

section \<open>Properties of the genetic engine\<close>

subsection \<open>The arity invariant\<close>

text \<open>
  Random trees, the subtrees of a tree, replacement of a subtree and crossover keep the
  invariant.
\<close>

lemma arity_ok_subtrees:
  "arity_ok a \<Longrightarrow> t \<in> set (get_all_subtrees a) \<Longrightarrow> arity_ok t"
proof (induction a arbitrary: t)
  case (Apply op_name children)
  from Apply.prems(2) consider "t = Apply op_name children"
    | c where "c \<in> set children" and "t \<in> set (get_all_subtrees c)"
    by auto
  then show ?case
  proof cases
    case 1
    with Apply.prems(1) show ?thesis by simp
  next
    case 2
    moreover from Apply.prems(1) 2(1) have "arity_ok c"
      by (simp add: list_all_iff)
    ultimately show ?thesis using Apply.IH by blast
  qed
qed simp_all

lemma arity_ok_replace_in_ast:
  "arity_ok node \<Longrightarrow> arity_ok new_subtree \<Longrightarrow> arity_ok (replace_in_ast target new_subtree node)"
proof (induction node)
  case (Apply op_name children)
  then show ?case
    by (subst replace_in_ast.simps) (auto simp: list_all_iff)
qed (simp_all add: replace_in_ast.simps)

lemma arity_ok_replace_subtree:
  "arity_ok a \<Longrightarrow> arity_ok new_subtree \<Longrightarrow> arity_ok (replace_subtree a index new_subtree)"
  by (simp add: replace_subtree_def Let_def arity_ok_replace_in_ast)

lemma arity_ok_random_terminal: "arity_ok (fst (random_terminal g))"
  by (simp add: random_terminal_def Let_def case_prod_beta)

lemma arity_ok_generate_children:
  assumes "\<And>g. arity_ok (fst (generate_random_ast d meth g))"
  shows "list_all arity_ok (fst (generate_children d meth k g))
       \<and> length (fst (generate_children d meth k g)) = k"
  using assms by (induction k arbitrary: g) (simp_all add: Let_def case_prod_beta)

lemma arity_ok_generate: "arity_ok (fst (generate_random_ast d meth g))"
proof (induction d arbitrary: g)
  case 0
  show ?case by (simp add: arity_ok_random_terminal)
next
  case (Suc d)
  show ?case
    using arity_ok_generate_children [of d meth, OF Suc]
    by (simp add: arity_ok_random_terminal Let_def case_prod_beta)
qed

lemma get_all_subtrees_nonempty: "get_all_subtrees a \<noteq> []"
  by (cases a) simp_all

lemma nth_subtree_arity_ok:
  "arity_ok a \<Longrightarrow> arity_ok (get_all_subtrees a ! (n mod length (get_all_subtrees a)))"
  by (rule arity_ok_subtrees [of a]) (simp_all add: get_all_subtrees_nonempty)

lemma crossover_preserves_arity:
  assumes "arity_ok (ast parent1)" and "arity_ok (ast parent2)"
  shows "arity_ok (ast (fst (fst (crossover s parent1 parent2 g))))
       \<and> arity_ok (ast (snd (fst (crossover s parent1 parent2 g))))"
  using assms
  by (simp add: crossover_def Let_def case_prod_beta new_operator_def random_below_def
      arity_ok_replace_subtree nth_subtree_arity_ok)

text \<open>
  So do the initial population and the subtree and hoist mutations: \<open>mutate\<close> keeps the
  invariant whenever the kind it draws is not the point mutation.
\<close>

lemma mutate_preserves_arity_unless_point:
  assumes "arity_ok (ast operator)" and "g 1 mod 3 \<noteq> 0"
  shows "arity_ok (ast (fst (mutate s operator g)))"
proof -
  let ?subtrees = "get_all_subtrees (ast operator)"
  have t: "[Point, Subtree, Hoist] ! (g 1 mod 3) \<noteq> Point"
    using assms(2) by (cases "g (Suc 0) mod 3") (auto simp: nth_Cons split: nat.splits)
  have hoist: "arity_ok (tl ?subtrees ! (n mod length (tl ?subtrees)))"
    if "1 < length ?subtrees" for n
  proof -
    from that have "0 < length (tl ?subtrees)" by simp
    then have "n mod length (tl ?subtrees) < length (tl ?subtrees)"
      by (rule mod_less_divisor)
    then have "tl ?subtrees ! (n mod length (tl ?subtrees)) \<in> set (tl ?subtrees)"
      by (rule nth_mem)
    then have "tl ?subtrees ! (n mod length (tl ?subtrees)) \<in> set ?subtrees"
      by (rule list.set_sel(2) [rotated]) (simp add: get_all_subtrees_nonempty)
    with assms(1) show ?thesis by (rule arity_ok_subtrees)
  qed
  show ?thesis
    using assms(1) t hoist
    by (cases "[Point, Subtree, Hoist] ! (g 1 mod 3)")
       (simp_all add: mutate_def Let_def case_prod_beta random_random_def random_below_def
          rng_tail_def arity_ok_replace_subtree arity_ok_generate)
qed

lemma initial_individuals_arity_ok:
  "list_all (\<lambda>operator. arity_ok (ast operator)) (fst (initial_individuals n max_depth is g))"
  by (induction "is" arbitrary: g)
     (simp_all add: Let_def case_prod_beta new_operator_def arity_ok_generate)

lemma initialize_population_arity_ok:
  "list_all (\<lambda>operator. arity_ok (ast operator))
     (population (fst (initialize_population s max_depth g)))"
  by (simp add: initialize_population_def case_prod_beta initial_individuals_arity_ok)

text \<open>
  C2: the invariant holds for \<open>add(arg0, arg1)\<close>, and \<open>mutate\<close>, drawing a point mutation
  and the primitive \<open>not\<close>, returns \<open>not(arg0, arg1)\<close>: the operator of arity 1 with the
  two children of the old one. \<open>_point_mutation\<close> takes any primitive, whatever its arity.
\<close>

theorem point_mutation_breaks_arity:
  "arity_ok (ast add_tree)
   \<and> ast (fst (mutate default_engine add_tree point_draws)) = Apply ''not'' [Var 0, Var 1]
   \<and> \<not> arity_ok (ast (fst (mutate default_engine add_tree point_draws)))"
proof -
  have m: "ast (fst (mutate default_engine add_tree point_draws)) = Apply ''not'' [Var 0, Var 1]"
    by (simp add: mutate_def default_engine_def new_genetic_evolution_def add_tree_def
        new_operator_def point_draws_def random_random_def random_below_def rng_tail_def
        primitives_def)
  show ?thesis
    unfolding m by (simp add: add_tree_def new_operator_def genetic_get_arity.simps)
qed

subsection \<open>Crossover\<close>

text \<open>
  C5: in \<open>add(arg0, arg0)\<close> the subtree at index 1 is the first \<open>arg0\<close>. Crossover with
  the tree \<open>arg1\<close> at the points 1 and 0 gives \<open>add(arg1, arg1)\<close>: the subtree at index 2,
  which is equal to the one chosen, is replaced as well (\<open>add(arg1, arg0)\<close> is the tree
  with the subtree at index 1 alone replaced).
\<close>

theorem crossover_replaces_equal_subtrees:
  "get_all_subtrees (ast twin_tree) = [Apply ''add'' [Var 0, Var 0], Var 0, Var 0]
   \<and> get_all_subtrees (ast leaf_tree) = [Var 1]
   \<and> fst (crossover default_engine twin_tree leaf_tree cross_draws) =
       (new_operator (Apply ''add'' [Var 1, Var 1]), new_operator (Var 0))"
  by (simp add: crossover_def default_engine_def new_genetic_evolution_def twin_tree_def
      leaf_tree_def new_operator_def cross_draws_def random_random_def random_below_def
      rng_tail_def replace_subtree_def replace_in_ast.simps)

subsection \<open>The best individual so far\<close>

lemma py_max_by_mem: "py_max_by key xs = Inr b \<Longrightarrow> b \<in> set xs"
proof -
  have "foldl (\<lambda>best y. if key y > key best then y else best) x ys \<in> set (x # ys)" for x ys
    by (induction ys arbitrary: x) (auto split: if_splits)
  then show "py_max_by key xs = Inr b \<Longrightarrow> b \<in> set xs"
    by (cases xs) auto
qed

lemma evaluate_fitness_best_ever:
  assumes "best_ever s = Some b"
  shows "\<exists>b'. best_ever (snd (evaluate_fitness ff s)) = Some b'
           \<and> (b' = b \<or> (b' \<in> set (map (score ff) (population s)) \<and> fitness b < fitness b'))"
proof (cases "py_max_by fitness (map (score ff) (population s))")
  case (Inl e)
  with assms show ?thesis by (simp add: evaluate_fitness_def)
next
  case (Inr best_current)
  then have "best_current \<in> set (map (score ff) (population s))"
    by (rule py_max_by_mem)
  with Inr assms show ?thesis
    by (simp add: evaluate_fitness_def Let_def)
qed

lemma evolve_generation_best_ever:
  "best_ever (fst (snd (evolve_generation ff s g))) = best_ever (snd (evaluate_fitness ff s))"
  by (simp add: evolve_generation_def split: prod.splits option.splits sum.splits)

lemma evolve_sequence_best_ever:
  "best_ever s = Some b \<Longrightarrow>
     \<exists>b'. best_ever (evolve_sequence calls s) = Some b' \<and> (b' = b \<or> fitness b < fitness b')"
proof (induction calls arbitrary: s b)
  case Nil
  then show ?case by simp
next
  case (Cons call calls)
  obtain ff g where call: "call = (ff, g)" by (cases call)
  let ?s1 = "fst (snd (evolve_generation ff s g))"
  from evaluate_fitness_best_ever [OF Cons.prems, of ff] obtain b1 where
    b1: "best_ever ?s1 = Some b1" and le1: "b1 = b \<or> fitness b < fitness b1"
    by (auto simp: evolve_generation_best_ever)
  from Cons.IH [OF b1] obtain b' where
    "best_ever (evolve_sequence calls ?s1) = Some b'" and "b' = b1 \<or> fitness b1 < fitness b'"
    by blast
  with le1 call show ?case by auto
qed

text \<open>
  C6: once \<open>best_ever\<close> is set, a call of \<open>evolve_generation\<close> either leaves it as it is
  or replaces it by an individual of the population just evaluated whose fitness is
  strictly higher; so across any sequence of calls (whatever the fitness functions and the
  draws, and whether or not a call raises) \<open>best_ever\<close> stays set and is either the same
  individual or one of strictly higher fitness. Fitness values are real numbers here.
\<close>

theorem best_ever_improves_strictly:
  assumes "best_ever s = Some b"
  shows "(\<exists>b'. best_ever (fst (snd (evolve_generation ff s g))) = Some b'
            \<and> (b' = b \<or> (b' \<in> set (map (score ff) (population s)) \<and> fitness b < fitness b')))
       \<and> (\<exists>b'. best_ever (evolve_sequence calls s) = Some b'
            \<and> (b' = b \<or> fitness b < fitness b'))"
  using evaluate_fitness_best_ever [OF assms] evolve_sequence_best_ever [OF assms]
  by (simp add: evolve_generation_best_ever)

text \<open>
  The engine of two individuals: the first call replaces the best of fitness 1 by the
  constant of fitness 3; a second call whose fitness function raises on every tree scores
  all individuals 0 and leaves it.
\<close>

theorem best_ever_improves_strictly_witness:
  "best_ever small_engine = Some stale_best
   \<and> best_ever (fst (snd (evolve_generation const_fitness small_engine (\<lambda>i. 0)))) =
       Some \<lparr>ast = Const (PInt 1), fitness = 3, age = 0, mutations = 0\<rparr>
   \<and> (\<exists>b'. best_ever (evolve_sequence [(const_fitness, \<lambda>i. 0), (\<lambda>a. Inl TypeError, \<lambda>i. 1)]
               small_engine) = Some b'
          \<and> (b' = stale_best \<or> fitness stale_best < fitness b'))"
proof -
  have h: "best_ever small_engine = Some stale_best"
    by (simp add: small_engine_def)
  have e: "best_ever (snd (evaluate_fitness const_fitness small_engine)) =
      Some \<lparr>ast = Const (PInt 1), fitness = 3, age = 0, mutations = 0\<rparr>"
    by (simp add: evaluate_fitness_def small_engine_def new_genetic_evolution_def
        const_fitness_def score_def new_operator_def stale_best_def Let_def)
  from best_ever_improves_strictly [OF h, of const_fitness "\<lambda>i. 0"
      "[(const_fitness, \<lambda>i. 0), (\<lambda>a. Inl TypeError, \<lambda>i. 1)]"] h e
  show ?thesis
    by (simp add: evolve_generation_best_ever)
qed

section \<open>Properties of the meta-learner\<close>


































text \<open>
  C8: when the selected, registered strategy returns \<open>None\<close> or raises,
  \<open>attempt_synthesis\<close> returns \<open>None\<close> without raising; the entry of the strategy has its
  \<open>failure_count\<close> increased by one and \<open>elapsed\<close> added to its \<open>total_time\<close>, nothing
  else changes among the strategies, and the mapping and the success records are as before.
\<close>

theorem failure_updates_counters_only:
  assumes "select_strategy s pc g = Inr (nm, g')"
    and "map_of (strategies s) nm = Some st"
    and "synthesize_func st examples timeout = Inr None
         \<or> (\<exists>e. synthesize_func st examples timeout = Inl e)"
    and "attempt_synthesis float_mean s pc examples timeout elapsed g = (r, s', g2)"
  shows "r = Inr None
       \<and> strategies s' =
           AList.update nm
             (st\<lparr>failure_count := failure_count st + 1, total_time := total_time st + elapsed\<rparr>)
             (strategies s)
       \<and> strategy_mapping s' = strategy_mapping s
       \<and> success_patterns s' = success_patterns s"
  using assms
  by (auto simp: attempt_synthesis_def record_failure_def Let_def)

text \<open>A strategy that raises \<open>ValueError\<close>, and one that returns \<open>None\<close>.\<close>

theorem failure_updates_counters_only_witness:
  "select_strategy raising_learner int_problem (\<lambda>i. 0) = Inr (''enumerative'', \<lambda>i. 0)
   \<and> raising_program [] 5 = Inl ValueError
   \<and> fst (attempt_synthesis exact_mean raising_learner int_problem [] 5 2 (\<lambda>i. 0)) = Inr None
   \<and> strategies (fst (snd (attempt_synthesis exact_mean raising_learner int_problem [] 5 2 (\<lambda>i. 0)))) =
        [(''enumerative'',
          \<lparr>name = ''enumerative'', synthesize_func = raising_program, success_count = 0,
           failure_count = 1, total_time = 2, avg_program_size = 0\<rparr>)]
   \<and> strategy_mapping (fst (snd (attempt_synthesis exact_mean raising_learner int_problem [] 5 2 (\<lambda>i. 0)))) = []
   \<and> success_patterns (fst (snd (attempt_synthesis exact_mean raising_learner int_problem [] 5 2 (\<lambda>i. 0)))) = []
   \<and> fst (attempt_synthesis exact_mean quiet_learner int_problem [] 5 2 (\<lambda>i. 0)) = Inr None
   \<and> map (\<lambda>entry. failure_count (snd entry))
        (strategies (fst (snd (attempt_synthesis exact_mean quiet_learner int_problem [] 5 2 (\<lambda>i. 0))))) = [1]"
proof -
  let ?st = "\<lparr>name = ''enumerative'', synthesize_func = raising_program, success_count = 0,
              failure_count = 0, total_time = 0, avg_program_size = 0\<rparr>"
  let ?qt = "\<lparr>name = ''enumerative'', synthesize_func = no_program, success_count = 0,
              failure_count = 0, total_time = 0, avg_program_size = 0\<rparr>"
  have sel: "select_strategy raising_learner int_problem (\<lambda>i. 0) = Inr (''enumerative'', \<lambda>i. 0)"
    by (simp add: select_strategy_def raising_learner_def register_strategy_def
        new_meta_learner_def)
  have reg: "map_of (strategies raising_learner) ''enumerative'' = Some ?st"
    by (simp add: raising_learner_def register_strategy_def new_meta_learner_def)
  have fail: "synthesize_func ?st [] 5 = Inr None \<or> (\<exists>e. synthesize_func ?st [] 5 = Inl e)"
    by (simp add: raising_program_def)
  obtain r s' g2 where
    att: "attempt_synthesis exact_mean raising_learner int_problem [] 5 2 (\<lambda>i. 0) = (r, s', g2)"
    by (cases "attempt_synthesis exact_mean raising_learner int_problem [] 5 2 (\<lambda>i. 0)")
  have qsel: "select_strategy quiet_learner int_problem (\<lambda>i. 0) = Inr (''enumerative'', \<lambda>i. 0)"
    by (simp add: select_strategy_def quiet_learner_def register_strategy_def
        new_meta_learner_def)
  have qreg: "map_of (strategies quiet_learner) ''enumerative'' = Some ?qt"
    by (simp add: quiet_learner_def register_strategy_def new_meta_learner_def)
  have qfail: "synthesize_func ?qt [] 5 = Inr None \<or> (\<exists>e. synthesize_func ?qt [] 5 = Inl e)"
    by (simp add: no_program_def)
  obtain qr qs qg where
    qatt: "attempt_synthesis exact_mean quiet_learner int_problem [] 5 2 (\<lambda>i. 0) = (qr, qs, qg)"
    by (cases "attempt_synthesis exact_mean quiet_learner int_problem [] 5 2 (\<lambda>i. 0)")
  from failure_updates_counters_only [OF sel reg fail att]
    failure_updates_counters_only [OF qsel qreg qfail qatt]
  show ?thesis
    by (simp add: att qatt sel raising_program_def)
       (simp add: raising_learner_def quiet_learner_def register_strategy_def
          new_meta_learner_def)
qed

end
